theory Spec2Isabelle
  imports Main "HOL-Library.Word" "HOL-Library.Monad_Syntax"
begin

unbundle bit_operations_syntax

section \<open>The LiquidTWI driver (src/LiquidTWI.cpp)\<close>

text \<open>
  A shallow embedding of the driver class of \<^verbatim>\<open>src/LiquidTWI.cpp\<close>. Every member
  function becomes a function on an explicit state; the calls the driver makes to its two
  collaborators (the Wire bus library and the Arduino timing functions) are appended to a
  trace, in the order the source makes them. The one loop of the source that may run
  forever, \<^verbatim>\<open>while (Wire.endTransmission()) ;\<close>, is a \<^theory_text>\<open>partial_function\<close>
  into \<open>option\<close>: \<open>None\<close> is "does not return".
\<close>

subsection \<open>Bytes and the macros of the header\<close>

type_synonym u8 = "8 word"

text \<open>
  The header \<^verbatim>\<open>LiquidTWI.h\<close> is not among the sources, so the values of its macros are
  a parameter of every function below. All of them are used as bytes only: each use
  either passes the macro to a \<^verbatim>\<open>uint8_t\<close> parameter or combines it bitwise with a
  \<^verbatim>\<open>uint8_t\<close> and stores the result in one, and truncation to 8 bits commutes with
  \<^verbatim>\<open>|\<close>, \<^verbatim>\<open>&\<close> and \<^verbatim>\<open>~\<close>.
\<close>

record macros =
  MCP23008_ADDRESS :: u8
  MCP23008_IODIR :: u8
  MCP23008_GPIO :: u8
  LCD_CLEARDISPLAY :: u8
  LCD_RETURNHOME :: u8
  LCD_ENTRYMODESET :: u8
  LCD_DISPLAYCONTROL :: u8
  LCD_CURSORSHIFT :: u8
  LCD_FUNCTIONSET :: u8
  LCD_SETCGRAMADDR :: u8
  LCD_SETDDRAMADDR :: u8
  LCD_ENTRYLEFT :: u8
  LCD_ENTRYSHIFTINCREMENT :: u8
  LCD_ENTRYSHIFTDECREMENT :: u8
  LCD_DISPLAYON :: u8
  LCD_CURSORON :: u8
  LCD_BLINKON :: u8
  LCD_BACKLIGHT :: u8
  LCD_DISPLAYMOVE :: u8
  LCD_MOVERIGHT :: u8
  LCD_MOVELEFT :: u8
  LCD_4BITMODE :: u8
  LCD_2LINE :: u8
  LCD_1LINE :: u8
  LCD_5x10DOTS :: u8
  LCD_5x8DOTS :: u8

text \<open>
  The instance the model is run on for concrete inputs: the instruction codes of the
  HD44780 data sheet that the source cites (\<^verbatim>\<open>0010NF00\<close> for function set, line 166),
  the register numbers of the MCP23008 expander, and the backlight flag on bit 3, the bit
  that \<^verbatim>\<open>bitWrite(_displaycontrol,3,status)\<close> writes (line 294).
\<close>

definition hd44780 :: macros where
  "hd44780 = \<lparr>
     MCP23008_ADDRESS = 0x20, MCP23008_IODIR = 0x00, MCP23008_GPIO = 0x09,
     LCD_CLEARDISPLAY = 0x01, LCD_RETURNHOME = 0x02, LCD_ENTRYMODESET = 0x04,
     LCD_DISPLAYCONTROL = 0x08, LCD_CURSORSHIFT = 0x10, LCD_FUNCTIONSET = 0x20,
     LCD_SETCGRAMADDR = 0x40, LCD_SETDDRAMADDR = 0x80,
     LCD_ENTRYLEFT = 0x02, LCD_ENTRYSHIFTINCREMENT = 0x01, LCD_ENTRYSHIFTDECREMENT = 0x00,
     LCD_DISPLAYON = 0x04, LCD_CURSORON = 0x02, LCD_BLINKON = 0x01, LCD_BACKLIGHT = 0x08,
     LCD_DISPLAYMOVE = 0x08, LCD_MOVERIGHT = 0x04, LCD_MOVELEFT = 0x00,
     LCD_4BITMODE = 0x00, LCD_2LINE = 0x08, LCD_1LINE = 0x00,
     LCD_5x10DOTS = 0x04, LCD_5x8DOTS = 0x00 \<rparr>"

text \<open>\<^verbatim>\<open>HIGH\<close> and \<^verbatim>\<open>LOW\<close> of the Arduino core.\<close>

definition HIGH :: u8 where "HIGH = 1"
definition LOW :: u8 where "LOW = 0"

subsection \<open>State: the object and its two collaborators\<close>

text \<open>
  The calls made to the collaborators. \<open>EndTransmission r\<close> is a call of
  \<^verbatim>\<open>Wire.endTransmission()\<close> that returned \<open>r\<close> (0 is success).
\<close>

datatype event =
    Delay nat
  | DelayMicroseconds nat
  | WireBegin
  | BeginTransmission u8
  | WireWrite u8
  | EndTransmission u8

text \<open>
  The first six fields are the data members of the class (\<^verbatim>\<open>_i2cAddr\<close>,
  \<^verbatim>\<open>_displayfunction\<close>, ...; an Isabelle name cannot start with an underscore).
  \<open>acks\<close> is the bus transport: the \<open>n\<close>-th call of \<^verbatim>\<open>Wire.endTransmission()\<close>
  returns \<open>acks n\<close>; \<open>polls\<close> counts the calls made so far; \<open>trace\<close> is every call
  made to the collaborators, oldest first.
\<close>

record world =
  i2cAddr :: u8
  displayfunction :: u8
  displaycontrol :: u8
  displaymode :: u8
  numlines :: u8
  currline :: u8
  acks :: "nat \<Rightarrow> u8"
  polls :: nat
  trace :: "event list"

definition emit :: "event \<Rightarrow> world \<Rightarrow> world" where
  "emit e w = w\<lparr>trace := trace w @ [e]\<rparr>"

definition delay :: "nat \<Rightarrow> world \<Rightarrow> world option" where
  "delay ms w = Some (emit (Delay ms) w)"

definition delayMicroseconds :: "nat \<Rightarrow> world \<Rightarrow> world option" where
  "delayMicroseconds us w = Some (emit (DelayMicroseconds us) w)"

definition Wire_begin :: "world \<Rightarrow> world option" where
  "Wire_begin w = Some (emit WireBegin w)"

definition Wire_beginTransmission :: "u8 \<Rightarrow> world \<Rightarrow> world option" where
  "Wire_beginTransmission a w = Some (emit (BeginTransmission a) w)"

definition Wire_write :: "u8 \<Rightarrow> world \<Rightarrow> world option" where
  "Wire_write b w = Some (emit (WireWrite b) w)"

text \<open>One call of \<^verbatim>\<open>Wire.endTransmission()\<close>: the status and the state after it.\<close>

definition Wire_endTransmission :: "world \<Rightarrow> u8 \<times> world" where
  "Wire_endTransmission w =
     (let r = acks w (polls w)
      in (r, emit (EndTransmission r) (w\<lparr>polls := Suc (polls w)\<rparr>)))"

text \<open>Line 338: \<^verbatim>\<open>while (Wire.endTransmission()) ;\<close>\<close>

partial_function (option) endTransmission_retry :: "world \<Rightarrow> world option" where
  "endTransmission_retry w =
     (case Wire_endTransmission w of
        (r, w') \<Rightarrow> if r \<noteq> 0 then endTransmission_retry w' else Some w')"

subsection \<open>Low level: burstBits and send (lines 299-339)\<close>

definition burstBits :: "macros \<Rightarrow> u8 \<Rightarrow> world \<Rightarrow> world option" where
  "burstBits h val w = do {
     w \<leftarrow> Wire_beginTransmission (MCP23008_ADDRESS h OR i2cAddr w) w;
     w \<leftarrow> Wire_write (MCP23008_GPIO h) w;
     w \<leftarrow> Wire_write val w;
     endTransmission_retry w
   }"

text \<open>
  \<^verbatim>\<open>B11110000\<close> and \<^verbatim>\<open>B1111\<close> are the binary constants \<open>0xF0\<close> and \<open>0x0F\<close>;
  \<^verbatim>\<open>3 << 1\<close>, \<^verbatim>\<open>2 << 1\<close> and \<^verbatim>\<open>~(1<<2)\<close> are kept as shifts.
\<close>

definition send :: "macros \<Rightarrow> u8 \<Rightarrow> u8 \<Rightarrow> world \<Rightarrow> world option" where
  "send h val mode w = do {
     let buf = drop_bit 1 (val AND 0xF0);
     let buf = (if mode \<noteq> 0 then buf OR push_bit 1 3 else buf OR push_bit 1 2);
     let buf = buf OR (if displaycontrol w AND LCD_BACKLIGHT h \<noteq> 0 then 0x80 else 0x00);
     w \<leftarrow> burstBits h buf w;
     let buf = buf AND NOT (push_bit 2 1);
     w \<leftarrow> burstBits h buf w;
     let buf = push_bit 3 (val AND 0x0F);
     let buf = (if mode \<noteq> 0 then buf OR push_bit 1 3 else buf OR push_bit 1 2);
     let buf = buf OR (if displaycontrol w AND LCD_BACKLIGHT h \<noteq> 0 then 0x80 else 0x00);
     w \<leftarrow> burstBits h buf w;
     let buf = buf AND NOT (push_bit 2 1);
     burstBits h buf w
   }"

subsection \<open>Mid level: command and write (lines 277-289)\<close>

definition command :: "macros \<Rightarrow> u8 \<Rightarrow> world \<Rightarrow> world option" where
  "command h val w = send h val LOW w"

text \<open>
  \<^verbatim>\<open>LiquidTWI::write\<close> (\<open>write\<close> is a keyword of Isabelle, hence the suffix).
  With \<^verbatim>\<open>ARDUINO >= 100\<close> the function also returns the constant 1, the number of
  bytes written; the state is all that is modelled.
\<close>

definition write_lcd :: "macros \<Rightarrow> u8 \<Rightarrow> world \<Rightarrow> world option" where
  "write_lcd h val w = send h val HIGH w"

subsection \<open>The high level commands (lines 185-274, 293-296)\<close>

definition clear :: "macros \<Rightarrow> world \<Rightarrow> world option" where
  "clear h w = do {
     w \<leftarrow> command h (LCD_CLEARDISPLAY h) w;
     delayMicroseconds 2000 w
   }"

definition home :: "macros \<Rightarrow> world \<Rightarrow> world option" where
  "home h w = do {
     w \<leftarrow> command h (LCD_RETURNHOME h) w;
     delayMicroseconds 2000 w
   }"

text \<open>
  What can go wrong besides not returning: a read beyond the end of an array, which
  C++ leaves undefined. The fault carries the index that was read.
\<close>

datatype fault = RowOffsetsOutOfBounds nat | CharmapOutOfBounds nat

definition row_offsets :: "int list" where
  "row_offsets = [0x00, 0x40, 0x14, 0x54]"

text \<open>
  Line 200 assigns \<^verbatim>\<open>_numlines - 1\<close> to the \<^verbatim>\<open>uint8_t row\<close>, which wraps to 255
  when \<^verbatim>\<open>_numlines\<close> is 0. Line 201 adds and ors as \<^verbatim>\<open>int\<close> and the call of
  \<^verbatim>\<open>command\<close> truncates to \<^verbatim>\<open>uint8_t\<close>.
\<close>

definition setCursor :: "macros \<Rightarrow> u8 \<Rightarrow> u8 \<Rightarrow> world \<Rightarrow> (fault + world) option" where
  "setCursor h col row w =
     (let row = (if row > numlines w then numlines w - 1 else row)
      in if unat row < length row_offsets
         then map_option Inr
                (command h (word_of_int (uint (LCD_SETDDRAMADDR h)
                                           OR (uint col + row_offsets ! unat row))) w)
         else Some (Inl (RowOffsetsOutOfBounds (unat row))))"

definition noDisplay :: "macros \<Rightarrow> world \<Rightarrow> world option" where
  "noDisplay h w = do {
     let w = w\<lparr>displaycontrol := displaycontrol w AND NOT (LCD_DISPLAYON h)\<rparr>;
     command h (LCD_DISPLAYCONTROL h OR displaycontrol w) w
   }"

definition display :: "macros \<Rightarrow> world \<Rightarrow> world option" where
  "display h w = do {
     let w = w\<lparr>displaycontrol := displaycontrol w OR LCD_DISPLAYON h\<rparr>;
     command h (LCD_DISPLAYCONTROL h OR displaycontrol w) w
   }"

definition noCursor :: "macros \<Rightarrow> world \<Rightarrow> world option" where
  "noCursor h w = do {
     let w = w\<lparr>displaycontrol := displaycontrol w AND NOT (LCD_CURSORON h)\<rparr>;
     command h (LCD_DISPLAYCONTROL h OR displaycontrol w) w
   }"

definition cursor :: "macros \<Rightarrow> world \<Rightarrow> world option" where
  "cursor h w = do {
     let w = w\<lparr>displaycontrol := displaycontrol w OR LCD_CURSORON h\<rparr>;
     command h (LCD_DISPLAYCONTROL h OR displaycontrol w) w
   }"

definition noBlink :: "macros \<Rightarrow> world \<Rightarrow> world option" where
  "noBlink h w = do {
     let w = w\<lparr>displaycontrol := displaycontrol w AND NOT (LCD_BLINKON h)\<rparr>;
     command h (LCD_DISPLAYCONTROL h OR displaycontrol w) w
   }"

definition blink :: "macros \<Rightarrow> world \<Rightarrow> world option" where
  "blink h w = do {
     let w = w\<lparr>displaycontrol := displaycontrol w OR LCD_BLINKON h\<rparr>;
     command h (LCD_DISPLAYCONTROL h OR displaycontrol w) w
   }"

definition scrollDisplayLeft :: "macros \<Rightarrow> world \<Rightarrow> world option" where
  "scrollDisplayLeft h w =
     command h (LCD_CURSORSHIFT h OR LCD_DISPLAYMOVE h OR LCD_MOVELEFT h) w"

definition scrollDisplayRight :: "macros \<Rightarrow> world \<Rightarrow> world option" where
  "scrollDisplayRight h w =
     command h (LCD_CURSORSHIFT h OR LCD_DISPLAYMOVE h OR LCD_MOVERIGHT h) w"

definition leftToRight :: "macros \<Rightarrow> world \<Rightarrow> world option" where
  "leftToRight h w = do {
     let w = w\<lparr>displaymode := displaymode w OR LCD_ENTRYLEFT h\<rparr>;
     command h (LCD_ENTRYMODESET h OR displaymode w) w
   }"

definition rightToLeft :: "macros \<Rightarrow> world \<Rightarrow> world option" where
  "rightToLeft h w = do {
     let w = w\<lparr>displaymode := displaymode w AND NOT (LCD_ENTRYLEFT h)\<rparr>;
     command h (LCD_ENTRYMODESET h OR displaymode w) w
   }"

definition autoscroll :: "macros \<Rightarrow> world \<Rightarrow> world option" where
  "autoscroll h w = do {
     let w = w\<lparr>displaymode := displaymode w OR LCD_ENTRYSHIFTINCREMENT h\<rparr>;
     command h (LCD_ENTRYMODESET h OR displaymode w) w
   }"

definition noAutoscroll :: "macros \<Rightarrow> world \<Rightarrow> world option" where
  "noAutoscroll h w = do {
     let w = w\<lparr>displaymode := displaymode w AND NOT (LCD_ENTRYSHIFTINCREMENT h)\<rparr>;
     command h (LCD_ENTRYMODESET h OR displaymode w) w
   }"

text \<open>
  Lines 271-273, the loop over \<^verbatim>\<open>charmap\<close>. The array is a list; the source reads
  its elements 0 to 7 whatever its length is.
\<close>

function createChar_loop :: "macros \<Rightarrow> u8 list \<Rightarrow> nat \<Rightarrow> world \<Rightarrow> (fault + world) option" where
  "createChar_loop h charmap i w =
     (if i < 8
      then if i < length charmap
           then (case write_lcd h (charmap ! i) w of
                   None \<Rightarrow> None
                 | Some w' \<Rightarrow> createChar_loop h charmap (Suc i) w')
           else Some (Inl (CharmapOutOfBounds i))
      else Some (Inr w))"
  by pat_completeness auto
termination
  by (relation "measure (\<lambda>(h, charmap, i, w). 8 - i)") auto

definition createChar :: "macros \<Rightarrow> u8 \<Rightarrow> u8 list \<Rightarrow> world \<Rightarrow> (fault + world) option" where
  "createChar h location charmap w =
     (let location = location AND 0x7
      in case command h (LCD_SETCGRAMADDR h OR push_bit 3 location) w of
           None \<Rightarrow> None
         | Some w' \<Rightarrow> createChar_loop h charmap 0 w')"

text \<open>
  \<^verbatim>\<open>bitWrite(value, bit, bitvalue)\<close> of the Arduino core:
  \<^verbatim>\<open>(bitvalue ? value |= (1UL << bit) : value &= ~(1UL << bit))\<close>.
\<close>

definition bitWrite :: "u8 \<Rightarrow> nat \<Rightarrow> u8 \<Rightarrow> u8" where
  "bitWrite val b bitvalue =
     (if bitvalue \<noteq> 0 then val OR push_bit b 1 else val AND NOT (push_bit b 1))"

definition setBacklight :: "macros \<Rightarrow> u8 \<Rightarrow> world \<Rightarrow> world option" where
  "setBacklight h status w = do {
     let w = w\<lparr>displaycontrol := bitWrite (displaycontrol w) 3 status\<rparr>;
     burstBits h (if displaycontrol w AND LCD_BACKLIGHT h \<noteq> 0 then 0x80 else 0x00) w
   }"

subsection \<open>Construction and begin (lines 79-182)\<close>

text \<open>
  The constructor assigns two members only; the other four keep what the storage of the
  object held, so the storage is an argument.
\<close>

definition LiquidTWI :: "macros \<Rightarrow> u8 \<Rightarrow> world \<Rightarrow> world" where
  "LiquidTWI h addr storage =
     (let addr = (if addr > 7 then 7 else addr)
      in storage\<lparr>i2cAddr := addr,
                  displayfunction := LCD_4BITMODE h OR LCD_1LINE h OR LCD_5x8DOTS h\<rparr>)"

text \<open>
  \<^verbatim>\<open>LiquidTWI::begin\<close> (\<open>begin\<close> is a keyword of Isabelle, hence the suffix).
  The branch for \<^verbatim>\<open>ARDUINO >= 100\<close> and the legacy branch make the same calls under two
  names (\<^verbatim>\<open>Wire.write\<close>, \<^verbatim>\<open>Wire.send\<close>). The two transactions of lines 93-130 call
  \<^verbatim>\<open>Wire.endTransmission()\<close> once each and drop the status. \<^verbatim>\<open>B10011100\<close> and the
  seven constants after it are written in hexadecimal.
\<close>

definition begin_lcd :: "macros \<Rightarrow> u8 \<Rightarrow> u8 \<Rightarrow> u8 \<Rightarrow> world \<Rightarrow> world option" where
  "begin_lcd h cols lines dotsize w = do {
     w \<leftarrow> delay 50 w;
     w \<leftarrow> Wire_begin w;
     w \<leftarrow> Wire_beginTransmission (MCP23008_ADDRESS h OR i2cAddr w) w;
     w \<leftarrow> Wire_write (MCP23008_IODIR h) w;
     w \<leftarrow> Wire_write 0xFF w;
     w \<leftarrow> Wire_write 0x00 w;
     w \<leftarrow> Wire_write 0x00 w;
     w \<leftarrow> Wire_write 0x00 w;
     w \<leftarrow> Wire_write 0x00 w;
     w \<leftarrow> Wire_write 0x00 w;
     w \<leftarrow> Wire_write 0x00 w;
     w \<leftarrow> Wire_write 0x00 w;
     w \<leftarrow> Wire_write 0x00 w;
     w \<leftarrow> Wire_write 0x00 w;
     w \<leftarrow> Some (snd (Wire_endTransmission w));
     w \<leftarrow> Wire_beginTransmission (MCP23008_ADDRESS h OR i2cAddr w) w;
     w \<leftarrow> Wire_write (MCP23008_IODIR h) w;
     w \<leftarrow> Wire_write 0x00 w;
     w \<leftarrow> Some (snd (Wire_endTransmission w));
     let w = (if lines > 1 then w\<lparr>displayfunction := displayfunction w OR LCD_2LINE h\<rparr> else w);
     let w = w\<lparr>numlines := lines\<rparr>;
     let w = w\<lparr>currline := 0\<rparr>;
     let w = (if dotsize \<noteq> 0 \<and> lines = 1
              then w\<lparr>displayfunction := displayfunction w OR LCD_5x10DOTS h\<rparr> else w);
     w \<leftarrow> burstBits h 0x9C w;
     w \<leftarrow> burstBits h 0x98 w;
     w \<leftarrow> burstBits h 0x9C w;
     w \<leftarrow> burstBits h 0x98 w;
     w \<leftarrow> burstBits h 0x9C w;
     w \<leftarrow> burstBits h 0x98 w;
     w \<leftarrow> burstBits h 0x94 w;
     w \<leftarrow> burstBits h 0x90 w;
     w \<leftarrow> delay 5 w;
     w \<leftarrow> command h (LCD_FUNCTIONSET h OR displayfunction w) w;
     w \<leftarrow> delay 5 w;
     w \<leftarrow> command h (LCD_FUNCTIONSET h OR displayfunction w) w;
     w \<leftarrow> delay 5 w;
     let w = w\<lparr>displaycontrol := LCD_DISPLAYON h\<rparr>;
     w \<leftarrow> display h w;
     w \<leftarrow> clear h w;
     let w = w\<lparr>displaymode := LCD_ENTRYLEFT h OR LCD_ENTRYSHIFTDECREMENT h\<rparr>;
     w \<leftarrow> command h (LCD_ENTRYMODESET h OR displaymode w) w;
     setBacklight h HIGH w
   }"

subsection \<open>The interface as data: calls and runs\<close>

text \<open>One constructor for each member function, so that a program is a list of calls.\<close>

datatype call =
    Begin u8 u8 u8
  | Clear
  | Home
  | SetCursor u8 u8
  | NoDisplay
  | Display
  | NoCursor
  | Cursor
  | NoBlink
  | Blink
  | ScrollDisplayLeft
  | ScrollDisplayRight
  | LeftToRight
  | RightToLeft
  | Autoscroll
  | NoAutoscroll
  | CreateChar u8 "u8 list"
  | Command u8
  | Write u8
  | SetBacklight u8
  | Send u8 u8
  | BurstBits u8

fun exec :: "macros \<Rightarrow> call \<Rightarrow> world \<Rightarrow> (fault + world) option" where
  "exec h (Begin cols lines dotsize) w = map_option Inr (begin_lcd h cols lines dotsize w)"
| "exec h Clear w = map_option Inr (clear h w)"
| "exec h Home w = map_option Inr (home h w)"
| "exec h (SetCursor col row) w = setCursor h col row w"
| "exec h NoDisplay w = map_option Inr (noDisplay h w)"
| "exec h Display w = map_option Inr (display h w)"
| "exec h NoCursor w = map_option Inr (noCursor h w)"
| "exec h Cursor w = map_option Inr (cursor h w)"
| "exec h NoBlink w = map_option Inr (noBlink h w)"
| "exec h Blink w = map_option Inr (blink h w)"
| "exec h ScrollDisplayLeft w = map_option Inr (scrollDisplayLeft h w)"
| "exec h ScrollDisplayRight w = map_option Inr (scrollDisplayRight h w)"
| "exec h LeftToRight w = map_option Inr (leftToRight h w)"
| "exec h RightToLeft w = map_option Inr (rightToLeft h w)"
| "exec h Autoscroll w = map_option Inr (autoscroll h w)"
| "exec h NoAutoscroll w = map_option Inr (noAutoscroll h w)"
| "exec h (CreateChar location charmap) w = createChar h location charmap w"
| "exec h (Command val) w = map_option Inr (command h val w)"
| "exec h (Write val) w = map_option Inr (write_lcd h val w)"
| "exec h (SetBacklight status) w = map_option Inr (setBacklight h status w)"
| "exec h (Send val mode) w = map_option Inr (send h val mode w)"
| "exec h (BurstBits val) w = map_option Inr (burstBits h val w)"

text \<open>A run stops at the first call that does not return or that faults.\<close>

fun run :: "macros \<Rightarrow> call list \<Rightarrow> world \<Rightarrow> (fault + world) option" where
  "run h [] w = Some (Inr w)"
| "run h (c # cs) w =
     (case exec h c w of
        None \<Rightarrow> None
      | Some (Inl f) \<Rightarrow> Some (Inl f)
      | Some (Inr w') \<Rightarrow> run h cs w')"

section \<open>Observations on runs\<close>

text \<open>
  The notions the theorems are stated with. None of them is part of the driver; each is a
  way of looking at a state or a trace.
\<close>

subsection \<open>What was written and waited for\<close>

text \<open>
  \<open>outputs\<close> drops the status polls from a trace: what remains is what the driver wrote
  to the bus and how long it waited, whatever the transport answered in between.
\<close>

fun is_poll :: "event \<Rightarrow> bool" where
  "is_poll (EndTransmission r) = True"
| "is_poll e = False"

definition outputs :: "event list \<Rightarrow> event list" where
  "outputs es = filter (\<lambda>e. \<not> is_poll e) es"

text \<open>
  The calls of \<^verbatim>\<open>burstBits\<close> for the bytes \<open>vs\<close>, without the polls: one transaction to
  the GPIO register per byte, for an object whose \<^verbatim>\<open>_i2cAddr\<close> is \<open>addr\<close>.
\<close>

definition gpio_writes :: "macros \<Rightarrow> u8 \<Rightarrow> u8 list \<Rightarrow> event list" where
  "gpio_writes h addr vs =
     concat (map (\<lambda>v. [BeginTransmission (MCP23008_ADDRESS h OR addr),
                        WireWrite (MCP23008_GPIO h), WireWrite v]) vs)"

text \<open>
  The byte that lines 295, 313 and 322 compute from \<^verbatim>\<open>_displaycontrol\<close>, and the four
  bytes that \<^verbatim>\<open>send\<close> hands to \<^verbatim>\<open>burstBits\<close> (lemma \<open>send_unfold\<close> below), as
  functions of the value of \<^verbatim>\<open>_displaycontrol\<close>.
\<close>

definition backlight_bit :: "macros \<Rightarrow> u8 \<Rightarrow> u8" where
  "backlight_bit h dc = (if dc AND LCD_BACKLIGHT h \<noteq> 0 then 0x80 else 0x00)"

definition nibble_bytes :: "macros \<Rightarrow> u8 \<Rightarrow> u8 \<Rightarrow> u8 \<Rightarrow> u8 list" where
  "nibble_bytes h dc val mode =
     (let hi = drop_bit 1 (val AND 0xF0);
          hi = (if mode \<noteq> 0 then hi OR push_bit 1 3 else hi OR push_bit 1 2);
          hi = hi OR backlight_bit h dc;
          lo = push_bit 3 (val AND 0x0F);
          lo = (if mode \<noteq> 0 then lo OR push_bit 1 3 else lo OR push_bit 1 2);
          lo = lo OR backlight_bit h dc
      in [hi, hi AND NOT (push_bit 2 1), lo, lo AND NOT (push_bit 2 1)])"

text \<open>The value lines 132-141 leave in \<^verbatim>\<open>_displayfunction\<close>, given the value before.\<close>

definition begin_function :: "macros \<Rightarrow> u8 \<Rightarrow> u8 \<Rightarrow> u8 \<Rightarrow> u8" where
  "begin_function h lines dotsize df =
     (let df = (if lines > 1 then df OR LCD_2LINE h else df)
      in if dotsize \<noteq> 0 \<and> lines = 1 then df OR LCD_5x10DOTS h else df)"

text \<open>
  The pins of the expander, as the table of lines 153-154 and the list of lines 301-307
  give them: bit 1 is RS, bit 2 is enable, bits 3 to 6 are D4 to D7, bit 7 is the
  backlight.
\<close>

definition pin_RS :: "u8 \<Rightarrow> bool" where "pin_RS b = bit b 1"
definition pin_EN :: "u8 \<Rightarrow> bool" where "pin_EN b = bit b 2"
definition pin_LITE :: "u8 \<Rightarrow> bool" where "pin_LITE b = bit b 7"
definition pin_data :: "u8 \<Rightarrow> u8" where "pin_data b = drop_bit 3 b AND 0x0F"

subsection \<open>States that differ in the transport only\<close>

text \<open>\<open>quiet w w'\<close>: the object and the transport's answers are the same in both states.\<close>

definition quiet :: "world \<Rightarrow> world \<Rightarrow> bool" where
  "quiet w w' \<longleftrightarrow>
     i2cAddr w' = i2cAddr w \<and> displayfunction w' = displayfunction w \<and>
     displaycontrol w' = displaycontrol w \<and> displaymode w' = displaymode w \<and>
     numlines w' = numlines w \<and> currline w' = currline w \<and> acks w' = acks w"

text \<open>The state after polling up to and including the \<open>n\<close>-th answer of the transport.\<close>

definition polled :: "world \<Rightarrow> nat \<Rightarrow> world" where
  "polled w n = w\<lparr>polls := Suc n,
                  trace := trace w @ map (\<lambda>k. EndTransmission (acks w k)) [polls w..<Suc n]\<rparr>"

text \<open>
  A transport is fair when it reports success again and again: after every answer there
  is a later one that is 0. \<open>ok r\<close>: the call returned, and the transport is still fair.
\<close>

definition fair :: "(nat \<Rightarrow> u8) \<Rightarrow> bool" where
  "fair a \<longleftrightarrow> (\<forall>n. \<exists>m. n \<le> m \<and> a m = 0)"

definition ok :: "world option \<Rightarrow> bool" where
  "ok r \<longleftrightarrow> (\<exists>w'. r = Some w' \<and> fair (acks w'))"

subsection \<open>Concrete states\<close>

text \<open>
  An object in zeroed storage (a global, as in the usage note of lines 38-40) on a bus that
  acknowledges at once; the same with a transport that fails three times before every
  success is reported, and with one that never reports success.
\<close>

definition zeroed :: world where
  "zeroed = \<lparr>i2cAddr = 0, displayfunction = 0, displaycontrol = 0, displaymode = 0,
             numlines = 0, currline = 0, acks = (\<lambda>n. 0), polls = 0, trace = []\<rparr>"

definition lcd0 :: world where
  "lcd0 = LiquidTWI hd44780 0 zeroed"

definition flaky :: world where
  "flaky = lcd0\<lparr>acks := (\<lambda>n. if n < 3 then 2 else 0)\<rparr>"

definition stuck :: world where
  "stuck = lcd0\<lparr>acks := (\<lambda>n. 2)\<rparr>"

subsection \<open>Calls that leave the backlight alone\<close>

text \<open>
  Every member function but \<^verbatim>\<open>begin\<close> (which assigns \<^verbatim>\<open>_displaycontrol\<close>),
  \<^verbatim>\<open>setBacklight\<close> and the raw \<^verbatim>\<open>burstBits\<close> (which writes the byte it is given).
\<close>

fun keeps_backlight :: "call \<Rightarrow> bool" where
  "keeps_backlight (Begin cols lines dotsize) = False"
| "keeps_backlight (SetBacklight status) = False"
| "keeps_backlight (BurstBits val) = False"
| "keeps_backlight c = True"

text \<open>
  What a run of such calls puts on the wire, item by item: \<open>Inl b\<close> is a write of the byte
  \<open>b\<close> to the GPIO register, \<open>Inr n\<close> a wait of \<open>n\<close> microseconds.
\<close>

fun item_events :: "macros \<Rightarrow> u8 \<Rightarrow> u8 + nat \<Rightarrow> event list" where
  "item_events h addr (Inl b) = gpio_writes h addr [b]"
| "item_events h addr (Inr n) = [DelayMicroseconds n]"

text \<open>
  \<open>carries h w w'\<close>: from \<open>w\<close> to \<open>w'\<close> the address, the transport, the function flags
  and bit 3 of \<^verbatim>\<open>_displaycontrol\<close> are unchanged, nothing but GPIO writes and waits was
  added to the outputs, and every byte written has the backlight pin as bit 3 of
  \<^verbatim>\<open>_displaycontrol\<close> says.
\<close>

definition carries :: "macros \<Rightarrow> world \<Rightarrow> world \<Rightarrow> bool" where
  "carries h w w' \<longleftrightarrow>
     i2cAddr w' = i2cAddr w \<and> acks w' = acks w \<and> displayfunction w' = displayfunction w \<and>
     (bit (displaycontrol w') 3 \<longleftrightarrow> bit (displaycontrol w) 3) \<and>
     (\<exists>items. outputs (trace w') =
                outputs (trace w) @ concat (map (item_events h (i2cAddr w)) items) \<and>
              list_all (case_sum (\<lambda>b. pin_LITE b \<longleftrightarrow> bit (displaycontrol w) 3) (\<lambda>n. True)) items)"

section \<open>How each call changes the state\<close>

subsection \<open>The retry loop\<close>

lemma retry_ack: "acks w (polls w) = 0 \<Longrightarrow> endTransmission_retry w = Some (polled w (polls w))"
  by (subst endTransmission_retry.simps) (simp add: Wire_endTransmission_def polled_def emit_def)

lemma retry_nak: "acks w (polls w) \<noteq> 0 \<Longrightarrow>
   endTransmission_retry w = endTransmission_retry (snd (Wire_endTransmission w))"
  by (subst endTransmission_retry.simps) (simp add: Wire_endTransmission_def Let_def)

lemma retry_Some:
  assumes "endTransmission_retry w = Some w'"
  shows "\<exists>n. polls w \<le> n \<and> acks w n = 0 \<and> (\<forall>m. polls w \<le> m \<and> m < n \<longrightarrow> acks w m \<noteq> 0) \<and> w' = polled w n"
proof (rule endTransmission_retry.raw_induct[where P = "\<lambda>w w'. \<exists>n. polls w \<le> n \<and> acks w n = 0 \<and> (\<forall>m. polls w \<le> m \<and> m < n \<longrightarrow> acks w m \<noteq> 0) \<and> w' = polled w n", OF _ assms], goal_cases)
  case (1 retry w w')
  show ?case
  proof (cases "acks w (polls w) = 0")
    case True
    with 1(2) have "w' = polled w (polls w)"
      by (simp add: Wire_endTransmission_def polled_def emit_def Let_def)
    with True show ?thesis by auto
  next
    case False
    let ?w1 = "snd (Wire_endTransmission w)"
    from False 1(2) have "retry ?w1 = Some w'"
      by (simp add: Wire_endTransmission_def Let_def)
    from 1(1)[OF this] obtain n where n: "polls ?w1 \<le> n" "acks ?w1 n = 0"
      "\<forall>m. polls ?w1 \<le> m \<and> m < n \<longrightarrow> acks ?w1 m \<noteq> 0" "w' = polled ?w1 n" by blast
    have p: "polls ?w1 = Suc (polls w)" "acks ?w1 = acks w"
      by (simp_all add: Wire_endTransmission_def emit_def Let_def)
    have "polled ?w1 n = polled w n" using n(1) p
      by (simp add: polled_def Wire_endTransmission_def emit_def upt_conv_Cons Let_def)
    moreover have "\<forall>m. polls w \<le> m \<and> m < n \<longrightarrow> acks w m \<noteq> 0"
      using n(3) p False by (metis Suc_leI le_neq_implies_less)
    ultimately show ?thesis using n p by (intro exI[of _ n]) auto
  qed
qed

lemma retry_returns:
  "polls w \<le> n \<Longrightarrow> acks w n = 0 \<Longrightarrow> \<exists>w'. endTransmission_retry w = Some w'"
proof (induction "n - polls w" arbitrary: w)
  case 0
  then have "acks w (polls w) = 0" by simp
  then show ?case by (simp add: retry_ack)
next
  case (Suc d)
  show ?case
  proof (cases "acks w (polls w) = 0")
    case True then show ?thesis by (simp add: retry_ack)
  next
    case False
    let ?w1 = "snd (Wire_endTransmission w)"
    have p: "polls ?w1 = Suc (polls w)" "acks ?w1 = acks w"
      by (simp_all add: Wire_endTransmission_def emit_def Let_def)
    have "\<exists>w'. endTransmission_retry ?w1 = Some w'"
      using Suc p by (intro Suc(1)) auto
    then show ?thesis using False by (simp add: retry_nak)
  qed
qed

lemma outputs_append [simp]: "outputs (xs @ ys) = outputs xs @ outputs ys"
  by (simp add: outputs_def)

lemma outputs_polls [simp]: "outputs (map (\<lambda>k. EndTransmission (f k)) ks) = []"
  by (induction ks) (simp_all add: outputs_def)

lemma outputs_simps [simp]:
  "outputs [] = []"
  "outputs (EndTransmission r # es) = outputs es"
  "outputs (Delay n # es) = Delay n # outputs es"
  "outputs (DelayMicroseconds n # es) = DelayMicroseconds n # outputs es"
  "outputs (WireBegin # es) = WireBegin # outputs es"
  "outputs (BeginTransmission a # es) = BeginTransmission a # outputs es"
  "outputs (WireWrite b # es) = WireWrite b # outputs es"
  by (simp_all add: outputs_def)

lemma quiet_refl [simp]: "quiet w w"
  by (simp add: quiet_def)

lemma quiet_trans: "quiet w w' \<Longrightarrow> quiet w' w'' \<Longrightarrow> quiet w w''"
  by (simp add: quiet_def)

lemma polled_simps [simp]:
  "quiet w (polled w n)" "polls (polled w n) = Suc n"
  "outputs (trace (polled w n)) = outputs (trace w)"
  by (simp_all add: polled_def quiet_def)

lemma gpio_writes_Cons2:
  "gpio_writes h a (x # y # ys) = gpio_writes h a [x] @ gpio_writes h a (y # ys)"
  by (simp add: gpio_writes_def)

lemma burstBits_eq:
  "burstBits h v w = endTransmission_retry (w\<lparr>trace := trace w @ gpio_writes h (i2cAddr w) [v]\<rparr>)"
  by (simp add: burstBits_def Wire_beginTransmission_def Wire_write_def emit_def gpio_writes_def)

lemma burstBits_SomeD:
  assumes "burstBits h v w = Some w'"
  shows "quiet w w' \<and> polls w < polls w' \<and>
    outputs (trace w') = outputs (trace w) @ gpio_writes h (i2cAddr w) [v]"
proof -
  let ?w1 = "w\<lparr>trace := trace w @ gpio_writes h (i2cAddr w) [v]\<rparr>"
  from assms have "endTransmission_retry ?w1 = Some w'" by (simp add: burstBits_eq)
  from retry_Some[OF this] obtain n where n: "polls ?w1 \<le> n" "w' = polled ?w1 n" by blast
  have q: "quiet w ?w1" by (simp add: quiet_def)
  have "quiet w w'" using n(2) quiet_trans[OF q] by simp
  moreover have "polls w < polls w'" using n by simp
  moreover have "outputs (trace w') = outputs (trace w) @ gpio_writes h (i2cAddr w) [v]"
    using n(2) by (simp add: gpio_writes_def)
  ultimately show ?thesis by blast
qed

lemma burstBits_returns:
  assumes "fair (acks w)" shows "\<exists>w'. burstBits h v w = Some w'"
proof -
  from assms obtain m where "polls w \<le> m" "acks w m = 0" unfolding fair_def by blast
  then show ?thesis unfolding burstBits_eq by (intro retry_returns[of _ m]) simp_all
qed

lemma send_unfold:
  "send h v m w = do {
     w1 \<leftarrow> burstBits h (nibble_bytes h (displaycontrol w) v m ! 0) w;
     w2 \<leftarrow> burstBits h (nibble_bytes h (displaycontrol w) v m ! 1) w1;
     w3 \<leftarrow> burstBits h (nibble_bytes h (displaycontrol w2) v m ! 2) w2;
     burstBits h (nibble_bytes h (displaycontrol w2) v m ! 3) w3
   }"
  by (simp add: send_def nibble_bytes_def backlight_bit_def Let_def)

lemma nibble_bytes_nth:
  "nibble_bytes h dc v m = [nibble_bytes h dc v m ! 0, nibble_bytes h dc v m ! 1,
      nibble_bytes h dc v m ! 2, nibble_bytes h dc v m ! 3]"
  by (simp add: nibble_bytes_def Let_def)

lemma send_SomeD:
  assumes "send h v m w = Some w'"
  shows "quiet w w' \<and> polls w < polls w' \<and>
    outputs (trace w') = outputs (trace w) @
      gpio_writes h (i2cAddr w) (nibble_bytes h (displaycontrol w) v m)"
proof -
  let ?n = "nibble_bytes h (displaycontrol w) v m"
  from assms obtain w1 w2 w3 where
    s: "burstBits h (?n ! 0) w = Some w1"
       "burstBits h (?n ! 1) w1 = Some w2"
       "burstBits h (nibble_bytes h (displaycontrol w2) v m ! 2) w2 = Some w3"
       "burstBits h (nibble_bytes h (displaycontrol w2) v m ! 3) w3 = Some w'"
    unfolding send_unfold by (auto simp only: bind_eq_Some_conv)
  note d = burstBits_SomeD[OF s(1)] burstBits_SomeD[OF s(2)] burstBits_SomeD[OF s(3)]
    burstBits_SomeD[OF s(4)]
  have f: "i2cAddr w1 = i2cAddr w" "i2cAddr w2 = i2cAddr w" "i2cAddr w3 = i2cAddr w"
    "displaycontrol w2 = displaycontrol w"
    using d by (simp_all add: quiet_def)
  have "quiet w w'" using d by (blast intro: quiet_trans)
  moreover have "polls w < polls w'" using d by linarith
  moreover have "outputs (trace w') = outputs (trace w) @ gpio_writes h (i2cAddr w) ?n"
    apply (subst nibble_bytes_nth)
    using d by (simp only: f gpio_writes_Cons2 append_assoc)
  ultimately show ?thesis by blast
qed

lemma ok_bind:
  assumes "ok r" and "\<And>w'. fair (acks w') \<Longrightarrow> ok (g w')"
  shows "ok (r \<bind> g)"
proof -
  from assms(1) obtain w' where "r = Some w'" "fair (acks w')" unfolding ok_def by blast
  then show ?thesis using assms(2)[of w'] by simp
qed

lemma ok_burstBits:
  assumes "fair (acks w)" shows "ok (burstBits h b w)"
proof -
  from burstBits_returns[OF assms] obtain w' where w': "burstBits h b w = Some w'" by blast
  from burstBits_SomeD[OF w'] have "acks w' = acks w" by (simp add: quiet_def)
  with assms w' show ?thesis by (simp add: ok_def)
qed

lemma ok_send: "fair (acks w) \<Longrightarrow> ok (send h v m w)"
  unfolding send_unfold
  apply (rule ok_bind, erule ok_burstBits)
  apply (rule ok_bind, erule ok_burstBits)
  apply (rule ok_bind, erule ok_burstBits)
  apply (erule ok_burstBits)
  done

lemma ok_command: "fair (acks w) \<Longrightarrow> ok (command h v w)"
  by (simp add: command_def ok_send)

lemma ok_write: "fair (acks w) \<Longrightarrow> ok (write_lcd h v w)"
  by (simp add: write_lcd_def ok_send)

lemma ok_pure:
  "fair (acks w) \<Longrightarrow> ok (delay n w)"
  "fair (acks w) \<Longrightarrow> ok (delayMicroseconds n w)"
  "fair (acks w) \<Longrightarrow> ok (Wire_begin w)"
  "fair (acks w) \<Longrightarrow> ok (Wire_beginTransmission a w)"
  "fair (acks w) \<Longrightarrow> ok (Wire_write b w)"
  "fair (acks w) \<Longrightarrow> ok (Some (snd (Wire_endTransmission w)))"
  by (simp_all add: ok_def delay_def delayMicroseconds_def Wire_begin_def
      Wire_beginTransmission_def Wire_write_def Wire_endTransmission_def emit_def Let_def)

lemma command_SomeD:
  "command h v w = Some w' \<Longrightarrow>
     quiet w w' \<and> outputs (trace w') = outputs (trace w) @
       gpio_writes h (i2cAddr w) (nibble_bytes h (displaycontrol w) v LOW)"
  unfolding command_def by (drule send_SomeD) blast

lemma write_SomeD:
  "write_lcd h v w = Some w' \<Longrightarrow>
     quiet w w' \<and> outputs (trace w') = outputs (trace w) @
       gpio_writes h (i2cAddr w) (nibble_bytes h (displaycontrol w) v HIGH)"
  unfolding write_lcd_def by (drule send_SomeD) blast

lemma clear_SomeD:
  "clear h w = Some w' \<Longrightarrow>
     quiet w w' \<and> outputs (trace w') = outputs (trace w) @
       gpio_writes h (i2cAddr w) (nibble_bytes h (displaycontrol w) (LCD_CLEARDISPLAY h) LOW) @
       [DelayMicroseconds 2000]"
  unfolding clear_def delayMicroseconds_def
  by (auto simp only: bind_eq_Some_conv option.inject dest!: command_SomeD)
     (simp_all add: emit_def quiet_def)

lemma home_SomeD:
  "home h w = Some w' \<Longrightarrow>
     quiet w w' \<and> outputs (trace w') = outputs (trace w) @
       gpio_writes h (i2cAddr w) (nibble_bytes h (displaycontrol w) (LCD_RETURNHOME h) LOW) @
       [DelayMicroseconds 2000]"
  unfolding home_def delayMicroseconds_def
  by (auto simp only: bind_eq_Some_conv option.inject dest!: command_SomeD)
     (simp_all add: emit_def quiet_def)

lemma ok_clear: "fair (acks w) \<Longrightarrow> ok (clear h w)"
  unfolding clear_def by (rule ok_bind, erule ok_command, erule ok_pure)

lemma ok_home: "fair (acks w) \<Longrightarrow> ok (home h w)"
  unfolding home_def by (rule ok_bind, erule ok_command, erule ok_pure)

lemma display_SomeD:
  "display h w = Some w' \<Longrightarrow>
     quiet (w\<lparr>displaycontrol := displaycontrol w OR LCD_DISPLAYON h\<rparr>) w' \<and>
     outputs (trace w') = outputs (trace w) @
       gpio_writes h (i2cAddr w) (nibble_bytes h (displaycontrol w OR LCD_DISPLAYON h)
          (LCD_DISPLAYCONTROL h OR (displaycontrol w OR LCD_DISPLAYON h)) LOW)"
  unfolding display_def Let_def by (drule command_SomeD) simp

lemma setBacklight_SomeD:
  "setBacklight h status w = Some w' \<Longrightarrow>
     quiet (w\<lparr>displaycontrol := bitWrite (displaycontrol w) 3 status\<rparr>) w' \<and>
     outputs (trace w') = outputs (trace w) @
       gpio_writes h (i2cAddr w) [backlight_bit h (bitWrite (displaycontrol w) 3 status)]"
  unfolding setBacklight_def Let_def by (drule burstBits_SomeD) (simp add: backlight_bit_def)

lemma ok_display: "fair (acks w) \<Longrightarrow> ok (display h w)"
  unfolding display_def Let_def by (rule ok_command) simp

lemma ok_setBacklight: "fair (acks w) \<Longrightarrow> ok (setBacklight h status w)"
  unfolding setBacklight_def Let_def by (rule ok_burstBits) simp

lemma quietD: "quiet w w' \<Longrightarrow> w' = w\<lparr>polls := polls w', trace := trace w'\<rparr>"
  by (cases w, cases w') (simp add: quiet_def)

lemma SomeX:
  assumes "quiet u w' \<and> outputs (trace w') = E"
  shows "\<exists>p t. w' = u\<lparr>polls := p, trace := t\<rparr> \<and> outputs t = E"
  using assms quietD[of u w'] by blast

lemma burstBits_SomeX:
  "burstBits h v w = Some w' \<Longrightarrow>
     \<exists>p t. w' = w\<lparr>polls := p, trace := t\<rparr> \<and>
       outputs t = outputs (trace w) @ gpio_writes h (i2cAddr w) [v]"
  by (rule SomeX) (use burstBits_SomeD in blast)

lemmas command_SomeX = command_SomeD[THEN SomeX]

lemmas write_SomeX = write_SomeD[THEN SomeX]

lemmas clear_SomeX = clear_SomeD[THEN SomeX]

lemmas home_SomeX = home_SomeD[THEN SomeX]

lemmas display_SomeX = display_SomeD[THEN SomeX]

lemmas setBacklight_SomeX = setBacklight_SomeD[THEN SomeX]

lemma if_upd:
  "(if c then w\<lparr>displayfunction := a\<rparr> else w) =
     w\<lparr>displayfunction := (if c then a else displayfunction w)\<rparr>"
  by simp

lemma pure_SomeX:
  "delay n w = Some w' \<Longrightarrow>
     \<exists>p t. w' = w\<lparr>polls := p, trace := t\<rparr> \<and> outputs t = outputs (trace w) @ [Delay n]"
  "delayMicroseconds n w = Some w' \<Longrightarrow>
     \<exists>p t. w' = w\<lparr>polls := p, trace := t\<rparr> \<and> outputs t = outputs (trace w) @ [DelayMicroseconds n]"
  "Wire_begin w = Some w' \<Longrightarrow>
     \<exists>p t. w' = w\<lparr>polls := p, trace := t\<rparr> \<and> outputs t = outputs (trace w) @ [WireBegin]"
  "Wire_beginTransmission a w = Some w' \<Longrightarrow>
     \<exists>p t. w' = w\<lparr>polls := p, trace := t\<rparr> \<and> outputs t = outputs (trace w) @ [BeginTransmission a]"
  "Wire_write b w = Some w' \<Longrightarrow>
     \<exists>p t. w' = w\<lparr>polls := p, trace := t\<rparr> \<and> outputs t = outputs (trace w) @ [WireWrite b]"
  "Some (snd (Wire_endTransmission w)) = Some w' \<Longrightarrow>
     \<exists>p t. w' = w\<lparr>polls := p, trace := t\<rparr> \<and> outputs t = outputs (trace w)"
  by (rule exI[of _ "polls w'"], rule exI[of _ "trace w'"],
      auto simp: delay_def delayMicroseconds_def Wire_begin_def Wire_beginTransmission_def
        Wire_write_def Wire_endTransmission_def emit_def Let_def)+

subsection \<open>The bits of the bytes that send writes\<close>

lemma u8_eqI:
  fixes a b :: u8
  assumes "bit a 0 = bit b 0" "bit a 1 = bit b 1" "bit a 2 = bit b 2" "bit a 3 = bit b 3"
    "bit a 4 = bit b 4" "bit a 5 = bit b 5" "bit a 6 = bit b 6" "bit a 7 = bit b 7"
  shows "a = b"
proof (rule bit_word_eqI)
  fix n assume "n < LENGTH(8)"
  then consider (b0) "n = 0" | (b1) "n = 1" | (b2) "n = 2" | (b3) "n = 3"
    | (b4) "n = 4" | (b5) "n = 5" | (b6) "n = 6" | (b7) "n = 7"
    by fastforce
  then show "bit a n = bit b n"
    using assms by cases simp_all
qed

lemma backlight_bit_cases: "backlight_bit h dc = 0 \<or> backlight_bit h dc = 0x80"
  by (simp add: backlight_bit_def)

lemma mode_or:
  "((x::u8) OR push_bit 1 3) OR bl = ((x OR push_bit 1 2) OR bl) OR 2"
  "((y::u8) OR 2) AND NOT (push_bit 2 1) = (y AND NOT (push_bit 2 1)) OR 2"
  by (rule u8_eqI; auto simp: bit_simps dest: bit_imp_le_length)+

lemma nibble_bytes_HIGH:
  "nibble_bytes h dc v HIGH = map (\<lambda>b. b OR 2) (nibble_bytes h dc v LOW)"
  unfolding nibble_bytes_def Let_def HIGH_def LOW_def
  by (simp only: one_neq_zero refl simp_thms if_True if_False list.map mode_or)

lemma nibble_pins:
  assumes "bl = 0 \<or> bl = (0x80::u8)"
  shows "\<not> bit ((drop_bit 1 (v AND 0xF0) OR push_bit 1 2) OR bl) 1"
    and "\<not> bit (((drop_bit 1 (v AND 0xF0) OR push_bit 1 2) OR bl) AND NOT (push_bit 2 1)) 1"
    and "\<not> bit ((push_bit 3 (v AND 0x0F) OR push_bit 1 2) OR bl) 1"
    and "\<not> bit (((push_bit 3 (v AND 0x0F) OR push_bit 1 2) OR bl) AND NOT (push_bit 2 1)) 1"
    and "bit ((x OR push_bit 1 2) OR bl) 2"
    and "\<not> bit (((x OR push_bit 1 2) OR bl) AND NOT (push_bit 2 1)) 2"
  using assms by (auto simp: bit_simps)

lemma nibble_data:
  assumes "bl = 0 \<or> bl = (0x80::u8)"
  shows "drop_bit 3 ((drop_bit 1 (v AND 0xF0) OR push_bit 1 2) OR bl) AND 0x0F = drop_bit 4 v"
    and "drop_bit 3 (((drop_bit 1 (v AND 0xF0) OR push_bit 1 2) OR bl) AND NOT (push_bit 2 1))
           AND 0x0F = drop_bit 4 v"
    and "drop_bit 3 ((push_bit 3 (v AND 0x0F) OR push_bit 1 2) OR bl) AND 0x0F = v AND 0x0F"
    and "drop_bit 3 (((push_bit 3 (v AND 0x0F) OR push_bit 1 2) OR bl) AND NOT (push_bit 2 1))
           AND 0x0F = v AND 0x0F"
  using assms by (rule_tac [!] u8_eqI; auto simp: bit_simps dest: bit_imp_le_length)+

lemma nibble_bytes_LOW_pins:
  "list_all (\<lambda>b. \<not> pin_RS b) (nibble_bytes h dc v LOW)"
  "map pin_EN (nibble_bytes h dc v LOW) = [True, False, True, False]"
  "map pin_data (nibble_bytes h dc v LOW) = [drop_bit 4 v, drop_bit 4 v, v AND 0x0F, v AND 0x0F]"
  unfolding nibble_bytes_def Let_def LOW_def pin_RS_def pin_EN_def pin_data_def
  using backlight_bit_cases[of h dc]
  by (simp_all only: refl simp_thms if_False list.map list.pred_inject nibble_pins nibble_data)

lemma nibble_bytes_LITE:
  "list_all (\<lambda>b. pin_LITE b \<longleftrightarrow> dc AND LCD_BACKLIGHT h \<noteq> 0) (nibble_bytes h dc v m)"
  by (auto simp: nibble_bytes_def Let_def pin_LITE_def backlight_bit_def bit_simps)

lemma small_col:
  fixes col :: u8
  assumes "col < 0x40"
  shows "\<not> bit col 6" "\<not> bit col 7" "0x40 + col = 0x40 OR col"
proof -
  from assms have "col < 2 ^ 6" by simp
  then have m: "col AND mask 6 = col" by (rule less_mask_eq)
  have "\<not> bit (col AND mask 6) 6" "\<not> bit (col AND mask 6) 7" by (simp_all add: bit_simps)
  with m show b: "\<not> bit col 6" "\<not> bit col 7" by simp_all
  have "(0x40 :: u8) AND col = 0"
    by (rule u8_eqI) (use b in \<open>auto simp: bit_simps\<close>)
  then show "0x40 + col = 0x40 OR col"
    by (rule disjunctive_add_eq_or)
qed

lemma ddram_decode:
  fixes col :: u8
  assumes "col < 0x40"
  shows "(0x80 OR col) AND 0x7F = col" "bit (0x80 OR col) 7"
    "(0x80 OR (0x40 + col)) AND 0x7F = 0x40 + col" "bit (0x80 OR (0x40 + col)) 7"
  unfolding small_col(3)[OF assms]
  using small_col(1,2)[OF assms]
  by (simp_all add: bit_simps) (rule u8_eqI; auto simp: bit_simps)+

lemma flag3: "(dc :: u8) AND 8 \<noteq> 0 \<longleftrightarrow> bit dc 3"
  using and_exp_eq_0_iff_not_bit[of dc 3] by simp

subsection \<open>The concrete transports\<close>

lemma fair_flaky: "fair (acks flaky)"
  unfolding fair_def
proof
  fix n :: nat
  have "n \<le> n + 3 \<and> acks flaky (n + 3) = 0" by (simp add: flaky_def)
  then show "\<exists>m. n \<le> m \<and> acks flaky m = 0" by blast
qed

lemma fair_lcd0: "fair (acks lcd0)"
  unfolding fair_def by (auto simp: lcd0_def LiquidTWI_def zeroed_def)

subsection \<open>setCursor\<close>

lemma setCursor_in_table:
  assumes "unat (if row > numlines w then numlines w - 1 else row) < 4"
  shows "setCursor h col row w =
     map_option Inr (command h (word_of_int (uint (LCD_SETDDRAMADDR h) OR
        (uint col + row_offsets ! unat (if row > numlines w then numlines w - 1 else row)))) w)"
  using assms by (simp add: setCursor_def Let_def row_offsets_def)

lemma setCursor_out_of_table:
  assumes "4 \<le> unat (if row > numlines w then numlines w - 1 else row)"
  shows "setCursor h col row w = Some (Inl (RowOffsetsOutOfBounds
     (unat (if row > numlines w then numlines w - 1 else row))))"
  using assms by (simp add: setCursor_def Let_def row_offsets_def)

lemma ddram_command:
  "word_of_int (uint (a :: u8) OR (uint (col :: u8) + k)) = a OR (col + word_of_int k)"
  "word_of_int (uint (a :: u8) OR uint (col :: u8)) = a OR col"
  "word_of_int (uint (a :: u8) OR k) = a OR word_of_int k"
  by (simp_all add: word_wi_log_defs(3)[symmetric] wi_hom_add[symmetric])

lemma ok_begin: "fair (acks w) \<Longrightarrow> ok (begin_lcd h cols lines dotsize w)"
  unfolding begin_lcd_def Let_def if_upd
  apply (rule ok_bind,
      (rule ok_pure ok_burstBits ok_command ok_display ok_clear ok_setBacklight), simp)+
  apply (rule ok_setBacklight, simp)
  done

lemma begin_SomeD:
  assumes "begin_lcd h cols lines dotsize w = Some w'"
  shows "i2cAddr w' = i2cAddr w \<and> acks w' = acks w \<and>
     displayfunction w' = begin_function h lines dotsize (displayfunction w) \<and>
     numlines w' = lines \<and> currline w' = 0 \<and>
     displaycontrol w' = bitWrite (LCD_DISPLAYON h OR LCD_DISPLAYON h) 3 HIGH \<and>
     displaymode w' = (LCD_ENTRYLEFT h OR LCD_ENTRYSHIFTDECREMENT h) \<and>
     outputs (trace w') = outputs (trace w) @
       [Delay 50, WireBegin,
        BeginTransmission (MCP23008_ADDRESS h OR i2cAddr w), WireWrite (MCP23008_IODIR h),
        WireWrite 0xFF, WireWrite 0, WireWrite 0, WireWrite 0, WireWrite 0, WireWrite 0,
        WireWrite 0, WireWrite 0, WireWrite 0, WireWrite 0,
        BeginTransmission (MCP23008_ADDRESS h OR i2cAddr w), WireWrite (MCP23008_IODIR h),
        WireWrite 0] @
       gpio_writes h (i2cAddr w) [0x9C, 0x98, 0x9C, 0x98, 0x9C, 0x98, 0x94, 0x90] @ [Delay 5] @
       gpio_writes h (i2cAddr w) (nibble_bytes h (displaycontrol w)
          (LCD_FUNCTIONSET h OR begin_function h lines dotsize (displayfunction w)) LOW) @ [Delay 5] @
       gpio_writes h (i2cAddr w) (nibble_bytes h (displaycontrol w)
          (LCD_FUNCTIONSET h OR begin_function h lines dotsize (displayfunction w)) LOW) @ [Delay 5] @
       gpio_writes h (i2cAddr w) (nibble_bytes h (LCD_DISPLAYON h OR LCD_DISPLAYON h)
          (LCD_DISPLAYCONTROL h OR (LCD_DISPLAYON h OR LCD_DISPLAYON h)) LOW) @
       gpio_writes h (i2cAddr w) (nibble_bytes h (LCD_DISPLAYON h OR LCD_DISPLAYON h)
          (LCD_CLEARDISPLAY h) LOW) @ [DelayMicroseconds 2000] @
       gpio_writes h (i2cAddr w) (nibble_bytes h (LCD_DISPLAYON h OR LCD_DISPLAYON h)
          (LCD_ENTRYMODESET h OR (LCD_ENTRYLEFT h OR LCD_ENTRYSHIFTDECREMENT h)) LOW) @
       gpio_writes h (i2cAddr w)
          [backlight_bit h (bitWrite (LCD_DISPLAYON h OR LCD_DISPLAYON h) 3 HIGH)]"
  using assms
  apply (simp only: begin_lcd_def Let_def bind_eq_Some_conv if_upd)
  apply (elim exE conjE)
  apply (drule pure_SomeX)+
  apply (drule burstBits_SomeX)+
  apply (drule command_SomeX)+
  apply (drule display_SomeX clear_SomeX setBacklight_SomeX)+
  apply (elim exE conjE)
  apply hypsubst
  apply (simp add: begin_function_def gpio_writes_Cons2)
  done

subsection \<open>Every call: what it leaves unchanged\<close>

lemma createChar_loop_quiet:
  "createChar_loop h charmap i w = Some (Inr w') \<Longrightarrow> quiet w w'"
proof (induction h charmap i w rule: createChar_loop.induct)
  case (1 h charmap i w)
  show ?case
  proof (cases "i < 8 \<and> i < length charmap")
    case False
    with "1.prems" show ?thesis
      by (simp add: createChar_loop.simps[of h charmap i w] split: if_splits)
  next
    case True
    with "1.prems" obtain w1 where
      w1: "write_lcd h (charmap ! i) w = Some w1"
        "createChar_loop h charmap (Suc i) w1 = Some (Inr w')"
      by (simp add: createChar_loop.simps[of h charmap i w] split: option.splits)
    from write_SomeD[OF w1(1)] have "quiet w w1" by blast
    moreover from "1.IH"[OF _ _ w1(1) w1(2)] True have "quiet w1 w'" by simp
    ultimately show ?thesis by (rule quiet_trans)
  qed
qed

lemma quiet_fields:
  assumes "quiet u w'"
  shows "i2cAddr w' = i2cAddr u" "acks w' = acks u" "displayfunction w' = displayfunction u"
    "displaycontrol w' = displaycontrol u" "displaymode w' = displaymode u"
    "numlines w' = numlines u" "currline w' = currline u"
  using assms by (simp_all add: quiet_def)

lemma exec_frame:
  assumes "exec h c w = Some (Inr w')"
  shows "i2cAddr w' = i2cAddr w \<and> acks w' = acks w \<and>
         displayfunction w' AND displayfunction w = displayfunction w"
proof (cases c)
  case (Begin cols lines dotsize)
  with assms have "begin_lcd h cols lines dotsize w = Some w'" by auto
  from begin_SomeD[OF this] show ?thesis
    by (auto simp: begin_function_def Let_def and.commute and.assoc) 
next
  case (SetCursor col row)
  with assms have s: "setCursor h col row w = Some (Inr w')" by simp
  then obtain v where "command h v w = Some w'"
    by (auto simp: setCursor_def Let_def split: if_splits)
  from command_SomeD[OF this] show ?thesis by (simp add: quiet_def)
next
  case (CreateChar location charmap)
  with assms obtain w1 where
    w1: "command h (LCD_SETCGRAMADDR h OR push_bit 3 (location AND 7)) w = Some w1"
      "createChar_loop h charmap 0 w1 = Some (Inr w')"
    by (auto simp: createChar_def Let_def split: option.splits)
  from command_SomeD[OF w1(1)] createChar_loop_quiet[OF w1(2)] show ?thesis
    by (simp add: quiet_def)
next
  case Clear
  with assms have "clear h w = Some w'" by auto
  from clear_SomeD[OF this] show ?thesis by (simp add: quiet_def)
next
  case Home
  with assms have "home h w = Some w'" by auto
  from home_SomeD[OF this] show ?thesis by (simp add: quiet_def)
next
  case (SetBacklight status)
  with assms have "setBacklight h status w = Some w'" by auto
  from setBacklight_SomeD[OF this] show ?thesis by (simp add: quiet_def)
next
  case (BurstBits val)
  with assms have "burstBits h val w = Some w'" by auto
  from burstBits_SomeD[OF this] show ?thesis by (simp add: quiet_def)
next
  case (Send val mode)
  with assms have "send h val mode w = Some w'" by auto
  from send_SomeD[OF this] show ?thesis by (simp add: quiet_def)
next
  case (Command val)
  with assms have "command h val w = Some w'" by auto
  from command_SomeD[OF this] show ?thesis by (simp add: quiet_def)
next
  case (Write val)
  with assms have "write_lcd h val w = Some w'" by auto
  from write_SomeD[OF this] show ?thesis by (simp add: quiet_def)
qed (use assms in \<open>auto simp: noDisplay_def display_def noCursor_def cursor_def noBlink_def
      blink_def scrollDisplayLeft_def scrollDisplayRight_def leftToRight_def rightToLeft_def
      autoscroll_def noAutoscroll_def Let_def quiet_def dest!: command_SomeD\<close>)

lemma run_frame:
  "run h cs w = Some (Inr w') \<Longrightarrow>
     i2cAddr w' = i2cAddr w \<and> acks w' = acks w \<and>
     displayfunction w' AND displayfunction w = displayfunction w"
proof (induction cs arbitrary: w)
  case Nil
  then show ?case by simp
next
  case (Cons c cs)
  then obtain w1 where w1: "exec h c w = Some (Inr w1)" "run h cs w1 = Some (Inr w')"
    by (auto split: option.splits sum.splits)
  from exec_frame[OF w1(1)] Cons.IH[OF w1(2)] show ?case
    by (metis and.assoc)
qed

subsection \<open>begin(16,2) on the object in zeroed storage\<close>

lemma length_gpio_writes [simp]: "length (gpio_writes h a bs) = 3 * length bs"
  by (induction bs) (simp_all add: gpio_writes_def)

lemma length_nibble_bytes [simp]: "length (nibble_bytes h dc v m) = 4"
  by (simp add: nibble_bytes_def Let_def)

lemma begin_lcd0:
  obtains w1 where "begin_lcd hd44780 16 2 0 lcd0 = Some w1" "fair (acks w1)"
    "length (outputs (trace w1)) = 108" "displaycontrol w1 = 0x0C" "numlines w1 = 2"
    "i2cAddr w1 = 0"
proof -
  from ok_begin[OF fair_lcd0, of hd44780 16 2 0] obtain w1 where
    w1: "begin_lcd hd44780 16 2 0 lcd0 = Some w1" "fair (acks w1)" unfolding ok_def by blast
  note d = begin_SomeD[OF w1(1)]
  have p: "trace lcd0 = []" "i2cAddr lcd0 = 0"
    by (simp_all add: lcd0_def LiquidTWI_def zeroed_def)
  from d have "length (outputs (trace w1)) = 108" by (simp add: p)
  moreover from d have "displaycontrol w1 = 0x0C"
    by (simp add: bitWrite_def HIGH_def hd44780_def)
  moreover from d p have "numlines w1 = 2" "i2cAddr w1 = 0" by simp_all
  ultimately show ?thesis using w1 that by blast
qed

lemma scenario_steps:
  assumes b: "begin_lcd h cols 2 dotsize w0 = Some w1"
  shows "setCursor h 15 1 w1 = map_option Inr (command h (LCD_SETDDRAMADDR h OR 0x4F) w1)"
    and "run h [SetCursor 15 1, Write 0x41] w1 = Some (Inr w3) \<Longrightarrow>
      outputs (trace w3) = outputs (trace w1) @
        gpio_writes h (i2cAddr w0)
          (nibble_bytes h (displaycontrol w1) (LCD_SETDDRAMADDR h OR 0x4F) LOW) @
        gpio_writes h (i2cAddr w0) (nibble_bytes h (displaycontrol w1) 0x41 HIGH)"
proof -
  from begin_SomeD[OF b] have n: "numlines w1 = 2" "i2cAddr w1 = i2cAddr w0" by blast+
  have 1: "unat (if (1::u8) > numlines w1 then numlines w1 - 1 else 1) < 4"
    by (simp add: n)
  from setCursor_in_table[OF 1, where h = h and col = 15] n
  show s: "setCursor h 15 1 w1 = map_option Inr (command h (LCD_SETDDRAMADDR h OR 0x4F) w1)"
    by (simp add: ddram_command row_offsets_def)
  assume "run h [SetCursor 15 1, Write 0x41] w1 = Some (Inr w3)"
  then obtain w2 where w2: "command h (LCD_SETDDRAMADDR h OR 0x4F) w1 = Some w2"
      "write_lcd h 0x41 w2 = Some w3"
    by (auto simp: s split: option.splits sum.splits)
  from command_SomeD[OF w2(1)] write_SomeD[OF w2(2)] n
  show "outputs (trace w3) = outputs (trace w1) @
        gpio_writes h (i2cAddr w0)
          (nibble_bytes h (displaycontrol w1) (LCD_SETDDRAMADDR h OR 0x4F) LOW) @
        gpio_writes h (i2cAddr w0) (nibble_bytes h (displaycontrol w1) 0x41 HIGH)"
    by (simp add: quiet_def)
qed

lemma scenario_lcd0:
  obtains w1 w2 w3 where "begin_lcd hd44780 16 2 0 lcd0 = Some w1"
    "length (outputs (trace w1)) = 108"
    "command hd44780 0xCF w1 = Some w2" "write_lcd hd44780 0x41 w2 = Some w3"
    "setCursor hd44780 15 1 w1 = Some (Inr w2)"
    "outputs (trace w3) = outputs (trace w1) @
       gpio_writes hd44780 0 [0xE4, 0xE0, 0xFC, 0xF8, 0xA6, 0xA2, 0x8E, 0x8A]"
proof -
  from begin_lcd0 obtain w1 where w1: "begin_lcd hd44780 16 2 0 lcd0 = Some w1"
    "fair (acks w1)" "length (outputs (trace w1)) = 108" "displaycontrol w1 = 0x0C"
    "i2cAddr w1 = 0" by blast
  from ok_command[OF w1(2), of hd44780 "0xCF"] obtain w2 where
    w2: "command hd44780 0xCF w1 = Some w2" "fair (acks w2)" unfolding ok_def by blast
  from ok_write[OF w2(2), of hd44780 "0x41"] obtain w3 where
    w3: "write_lcd hd44780 0x41 w2 = Some w3" unfolding ok_def by blast
  have m: "LCD_SETDDRAMADDR hd44780 OR 0x4F = 0xCF" by (simp add: hd44780_def)
  from scenario_steps(1)[OF w1(1)] w2 m
  have s: "setCursor hd44780 15 1 w1 = Some (Inr w2)" by simp
  then have r: "run hd44780 [SetCursor 15 1, Write 0x41] w1 = Some (Inr w3)"
    by (simp add: w3)
  have i: "i2cAddr lcd0 = 0" by (simp add: lcd0_def LiquidTWI_def zeroed_def)
  have nb: "nibble_bytes hd44780 0x0C 0xCF LOW = [0xE4, 0xE0, 0xFC, 0xF8]"
    "nibble_bytes hd44780 0x0C 0x41 HIGH = [0xA6, 0xA2, 0x8E, 0x8A]"
    by (simp_all add: nibble_bytes_def backlight_bit_def hd44780_def LOW_def HIGH_def)
  from scenario_steps(2)[OF w1(1) r]
  have "outputs (trace w3) = outputs (trace w1) @
       gpio_writes hd44780 0 [0xE4, 0xE0, 0xFC, 0xF8, 0xA6, 0xA2, 0x8E, 0x8A]"
    by (simp add: m i w1(4) nb gpio_writes_def)
  with w1 w2 w3 s that show ?thesis by blast
qed

section \<open>The claims\<close>

subsection \<open>C9: the retry loop of burstBits\<close>

text \<open>
  C9. \<^verbatim>\<open>burstBits\<close> ends with a loop that calls \<^verbatim>\<open>Wire.endTransmission()\<close> until it
  reports success. The call does not return exactly when the transport never reports
  success from then on; and when it returns, it has polled up to the first success and no
  further: every answer before was a failure, the answers are the last events of the
  trace, and nothing else was done in between.
\<close>

theorem burstBits_retries_until_success:
  "(burstBits h v w = None \<longleftrightarrow> (\<forall>n. polls w \<le> n \<longrightarrow> acks w n \<noteq> 0)) \<and>
   (\<forall>w'. burstBits h v w = Some w' \<longrightarrow>
      (\<exists>n. polls w \<le> n \<and> acks w n = 0 \<and> (\<forall>m. polls w \<le> m \<and> m < n \<longrightarrow> acks w m \<noteq> 0) \<and>
           polls w' = Suc n \<and>
           trace w' = trace w @ gpio_writes h (i2cAddr w) [v] @
                      map (\<lambda>k. EndTransmission (acks w k)) [polls w..<Suc n]))"
proof (intro conjI allI impI iffI)
  fix n assume "burstBits h v w = None" "polls w \<le> n"
  then show "acks w n \<noteq> 0"
    using retry_returns[of "w\<lparr>trace := trace w @ gpio_writes h (i2cAddr w) [v]\<rparr>" n]
    by (auto simp: burstBits_eq)
next
  assume never: "\<forall>n. polls w \<le> n \<longrightarrow> acks w n \<noteq> 0"
  show "burstBits h v w = None"
  proof (rule ccontr)
    assume "burstBits h v w \<noteq> None"
    then obtain w' where "endTransmission_retry
        (w\<lparr>trace := trace w @ gpio_writes h (i2cAddr w) [v]\<rparr>) = Some w'"
      by (auto simp: burstBits_eq)
    from retry_Some[OF this] never show False by auto
  qed
next
  fix w' assume "burstBits h v w = Some w'"
  then have "endTransmission_retry
      (w\<lparr>trace := trace w @ gpio_writes h (i2cAddr w) [v]\<rparr>) = Some w'"
    by (simp add: burstBits_eq)
  from retry_Some[OF this] obtain n where
    "polls w \<le> n" "acks w n = 0" "\<forall>m. polls w \<le> m \<and> m < n \<longrightarrow> acks w m \<noteq> 0"
    "w' = polled (w\<lparr>trace := trace w @ gpio_writes h (i2cAddr w) [v]\<rparr>) n"
    by auto
  then show "\<exists>n. polls w \<le> n \<and> acks w n = 0 \<and> (\<forall>m. polls w \<le> m \<and> m < n \<longrightarrow> acks w m \<noteq> 0) \<and>
           polls w' = Suc n \<and>
           trace w' = trace w @ gpio_writes h (i2cAddr w) [v] @
                      map (\<lambda>k. EndTransmission (acks w k)) [polls w..<Suc n]"
    by (intro exI[of _ n]) (simp add: polled_def)
qed

theorem burstBits_retries_until_success_witness:
  "burstBits hd44780 0x80 stuck = None \<and>
   (\<exists>w'. burstBits hd44780 0x80 flaky = Some w' \<and> polls w' = 4 \<and>
      trace w' = [BeginTransmission 0x20, WireWrite 0x09, WireWrite 0x80,
                  EndTransmission 2, EndTransmission 2, EndTransmission 2, EndTransmission 0])"
proof -
  note t = burstBits_retries_until_success
  have s: "\<forall>n. polls stuck \<le> n \<longrightarrow> acks stuck n \<noteq> 0"
    by (simp add: stuck_def)
  have 1: "burstBits hd44780 0x80 stuck = None"
    using t[of hd44780 "0x80" stuck] s by blast
  have "burstBits hd44780 0x80 flaky \<noteq> None"
  proof
    assume "burstBits hd44780 0x80 flaky = None"
    with t[of hd44780 "0x80" flaky] have "\<forall>n. polls flaky \<le> n \<longrightarrow> acks flaky n \<noteq> 0"
      by blast
    moreover have "polls flaky \<le> 3" "acks flaky 3 = 0"
      by (simp_all add: flaky_def lcd0_def LiquidTWI_def zeroed_def)
    ultimately show False by blast
  qed
  then obtain w' where w': "burstBits hd44780 0x80 flaky = Some w'" by blast
  with t[of hd44780 "0x80" flaky] obtain n where
    n: "acks flaky n = 0" "\<forall>m. polls flaky \<le> m \<and> m < n \<longrightarrow> acks flaky m \<noteq> 0"
       "polls w' = Suc n"
       "trace w' = trace flaky @ gpio_writes hd44780 (i2cAddr flaky) [0x80] @
                      map (\<lambda>k. EndTransmission (acks flaky k)) [polls flaky..<Suc n]"
    by blast
  have p: "polls flaky = 0" "trace flaky = []" "i2cAddr flaky = 0"
    by (simp_all add: flaky_def lcd0_def LiquidTWI_def zeroed_def)
  from n(1) have "3 \<le> n" by (simp add: flaky_def split: if_splits)
  moreover have "n \<le> 3"
  proof (rule ccontr)
    assume "\<not> n \<le> 3"
    with n(2) p have "acks flaky 3 \<noteq> 0" by simp
    then show False by (simp add: flaky_def)
  qed
  ultimately have "n = 3" by simp
  with n(3,4) p have "polls w' = 4 \<and>
      trace w' = [BeginTransmission 0x20, WireWrite 0x09, WireWrite 0x80,
                  EndTransmission 2, EndTransmission 2, EndTransmission 2, EndTransmission 0]"
    by (simp add: gpio_writes_def hd44780_def flaky_def upt_conv_Cons)
  with 1 w' show ?thesis by blast
qed

subsection \<open>C8: clear and home wait after the command\<close>

text \<open>
  C8. Every call of \<^verbatim>\<open>clear()\<close>, and of \<^verbatim>\<open>home()\<close>, that returns has written the four
  bursts of its command byte (\<^verbatim>\<open>LCD_CLEARDISPLAY\<close>, \<^verbatim>\<open>LCD_RETURNHOME\<close>, sent with RS
  low) and then, as the last thing it does, has called \<^verbatim>\<open>delayMicroseconds(2000)\<close>;
  nothing else is written or waited for. On a fair transport both calls return.
\<close>

theorem clear_home_wait_2000:
  "(fair (acks w) \<longrightarrow> (\<exists>w'. clear h w = Some w') \<and> (\<exists>w'. home h w = Some w')) \<and>
   (\<forall>w'. clear h w = Some w' \<longrightarrow>
      last (trace w') = DelayMicroseconds 2000 \<and>
      outputs (trace w') = outputs (trace w) @
        gpio_writes h (i2cAddr w) (nibble_bytes h (displaycontrol w) (LCD_CLEARDISPLAY h) LOW) @
        [DelayMicroseconds 2000]) \<and>
   (\<forall>w'. home h w = Some w' \<longrightarrow>
      last (trace w') = DelayMicroseconds 2000 \<and>
      outputs (trace w') = outputs (trace w) @
        gpio_writes h (i2cAddr w) (nibble_bytes h (displaycontrol w) (LCD_RETURNHOME h) LOW) @
        [DelayMicroseconds 2000])"
proof (intro conjI allI impI)
  assume f: "fair (acks w)"
  show "\<exists>w'. clear h w = Some w'" using ok_clear[OF f, of h] unfolding ok_def by blast
  show "\<exists>w'. home h w = Some w'" using ok_home[OF f, of h] unfolding ok_def by blast
next
  fix w' assume c: "clear h w = Some w'"
  then show "last (trace w') = DelayMicroseconds 2000"
    by (auto simp: clear_def delayMicroseconds_def emit_def bind_eq_Some_conv)
  from clear_SomeD[OF c] show "outputs (trace w') = outputs (trace w) @
        gpio_writes h (i2cAddr w) (nibble_bytes h (displaycontrol w) (LCD_CLEARDISPLAY h) LOW) @
        [DelayMicroseconds 2000]" by blast
next
  fix w' assume c: "home h w = Some w'"
  then show "last (trace w') = DelayMicroseconds 2000"
    by (auto simp: home_def delayMicroseconds_def emit_def bind_eq_Some_conv)
  from home_SomeD[OF c] show "outputs (trace w') = outputs (trace w) @
        gpio_writes h (i2cAddr w) (nibble_bytes h (displaycontrol w) (LCD_RETURNHOME h) LOW) @
        [DelayMicroseconds 2000]" by blast
qed

theorem clear_home_wait_2000_witness:
  "fair (acks flaky) \<and>
   (\<exists>w'. clear hd44780 flaky = Some w' \<and> last (trace w') = DelayMicroseconds 2000 \<and>
      outputs (trace w') =
        gpio_writes hd44780 0 [0x04, 0x00, 0x0C, 0x08] @ [DelayMicroseconds 2000]) \<and>
   (\<exists>w'. home hd44780 flaky = Some w' \<and> last (trace w') = DelayMicroseconds 2000 \<and>
      outputs (trace w') =
        gpio_writes hd44780 0 [0x04, 0x00, 0x14, 0x10] @ [DelayMicroseconds 2000])"
proof -
  note t = clear_home_wait_2000[of flaky hd44780]
  have p: "trace flaky = []" "i2cAddr flaky = 0" "displaycontrol flaky = 0"
    by (simp_all add: flaky_def lcd0_def LiquidTWI_def zeroed_def)
  have n: "nibble_bytes hd44780 0 (LCD_CLEARDISPLAY hd44780) LOW = [0x04, 0x00, 0x0C, 0x08]"
     "nibble_bytes hd44780 0 (LCD_RETURNHOME hd44780) LOW = [0x04, 0x00, 0x14, 0x10]"
    by (simp_all add: nibble_bytes_def backlight_bit_def hd44780_def LOW_def)
  from t fair_flaky obtain wc wh where
    "clear hd44780 flaky = Some wc" "home hd44780 flaky = Some wh" by blast
  with t p n fair_flaky show ?thesis by simp
qed

subsection \<open>C1: write and command differ in the RS bit only\<close>

text \<open>
  C1. From the same state, \<^verbatim>\<open>command(v)\<close> and \<^verbatim>\<open>write(v)\<close> each write four bytes to
  the GPIO register. The four bytes of \<^verbatim>\<open>command(v)\<close> have the RS pin low; the bytes of
  \<^verbatim>\<open>write(v)\<close> are the same bytes with the RS bit (bit 1, value 2) set. In both, the
  data pins carry the high nibble of \<open>v\<close> in the first two bytes and the low nibble in the
  last two, and each pair is enable high, then enable low. On a fair transport both calls
  return.
\<close>

theorem write_command_differ_in_RS:
  "(fair (acks w) \<longrightarrow> (\<exists>wc. command h v w = Some wc) \<and> (\<exists>wd. write_lcd h v w = Some wd)) \<and>
   (\<forall>wc wd. command h v w = Some wc \<and> write_lcd h v w = Some wd \<longrightarrow>
      (\<exists>c. length c = 4 \<and>
         outputs (trace wc) = outputs (trace w) @ gpio_writes h (i2cAddr w) c \<and>
         outputs (trace wd) = outputs (trace w) @ gpio_writes h (i2cAddr w) (map (\<lambda>b. b OR 2) c) \<and>
         list_all (\<lambda>b. \<not> pin_RS b) c \<and>
         list_all pin_RS (map (\<lambda>b. b OR 2) c) \<and>
         map pin_EN c = [True, False, True, False] \<and>
         map pin_EN (map (\<lambda>b. b OR 2) c) = [True, False, True, False] \<and>
         map pin_data c = [drop_bit 4 v, drop_bit 4 v, v AND 0x0F, v AND 0x0F] \<and>
         map pin_data (map (\<lambda>b. b OR 2) c) = [drop_bit 4 v, drop_bit 4 v, v AND 0x0F, v AND 0x0F]))"
proof (intro conjI allI impI)
  assume f: "fair (acks w)"
  show "\<exists>wc. command h v w = Some wc" using ok_command[OF f, of h v] unfolding ok_def by blast
  show "\<exists>wd. write_lcd h v w = Some wd" using ok_write[OF f, of h v] unfolding ok_def by blast
next
  fix wc wd assume a: "command h v w = Some wc \<and> write_lcd h v w = Some wd"
  let ?c = "nibble_bytes h (displaycontrol w) v LOW"
  have or2: "\<And>b::u8. pin_RS (b OR 2)" "\<And>b::u8. pin_EN (b OR 2) = pin_EN b"
    "\<And>b::u8. pin_data (b OR 2) = pin_data b"
    by (simp_all add: pin_RS_def pin_EN_def pin_data_def bit_simps)
  have "length ?c = 4" by (simp add: nibble_bytes_def Let_def)
  moreover have "outputs (trace wc) = outputs (trace w) @ gpio_writes h (i2cAddr w) ?c"
    using a command_SomeD by blast
  moreover have "outputs (trace wd) =
      outputs (trace w) @ gpio_writes h (i2cAddr w) (map (\<lambda>b. b OR 2) ?c)"
    using a write_SomeD[of h v w wd] by (simp add: nibble_bytes_HIGH)
  moreover have "list_all pin_RS (map (\<lambda>b. b OR 2) ?c)"
    by (simp add: list_all_iff or2)
  moreover have "map pin_EN (map (\<lambda>b. b OR 2) ?c) = [True, False, True, False]"
    using nibble_bytes_LOW_pins(2)[of h "displaycontrol w" v] by (simp add: or2 comp_def)
  moreover have "map pin_data (map (\<lambda>b. b OR 2) ?c) =
      [drop_bit 4 v, drop_bit 4 v, v AND 0x0F, v AND 0x0F]"
    using nibble_bytes_LOW_pins(3)[of h "displaycontrol w" v] by (simp add: or2 comp_def)
  ultimately show "\<exists>c. length c = 4 \<and>
         outputs (trace wc) = outputs (trace w) @ gpio_writes h (i2cAddr w) c \<and>
         outputs (trace wd) = outputs (trace w) @ gpio_writes h (i2cAddr w) (map (\<lambda>b. b OR 2) c) \<and>
         list_all (\<lambda>b. \<not> pin_RS b) c \<and>
         list_all pin_RS (map (\<lambda>b. b OR 2) c) \<and>
         map pin_EN c = [True, False, True, False] \<and>
         map pin_EN (map (\<lambda>b. b OR 2) c) = [True, False, True, False] \<and>
         map pin_data c = [drop_bit 4 v, drop_bit 4 v, v AND 0x0F, v AND 0x0F] \<and>
         map pin_data (map (\<lambda>b. b OR 2) c) = [drop_bit 4 v, drop_bit 4 v, v AND 0x0F, v AND 0x0F]"
    using nibble_bytes_LOW_pins[of h "displaycontrol w" v] by (intro exI[of _ ?c]) simp
qed

text \<open>
  At \<open>v = 0x41\<close> on the transport that fails three times: the bytes of the command are
  \<open>0x24 0x20 0x0C 0x08\<close>, those of the write \<open>0x26 0x22 0x0E 0x0A\<close>.
\<close>

theorem write_command_differ_in_RS_witness:
  "fair (acks flaky) \<and>
   (\<exists>wc wd. command hd44780 0x41 flaky = Some wc \<and> write_lcd hd44780 0x41 flaky = Some wd \<and>
      outputs (trace wc) = gpio_writes hd44780 0 [0x24, 0x20, 0x0C, 0x08] \<and>
      outputs (trace wd) = gpio_writes hd44780 0 [0x26, 0x22, 0x0E, 0x0A])"
proof -
  note t = write_command_differ_in_RS[of flaky hd44780 "0x41"]
  have p: "trace flaky = []" "i2cAddr flaky = 0" "displaycontrol flaky = 0"
    by (simp_all add: flaky_def lcd0_def LiquidTWI_def zeroed_def)
  from t fair_flaky obtain wc wd where
    r: "command hd44780 0x41 flaky = Some wc" "write_lcd hd44780 0x41 flaky = Some wd" by blast
  have "outputs (trace wc) = gpio_writes hd44780 0 [0x24, 0x20, 0x0C, 0x08]"
    using command_SomeD[OF r(1)] p
    by (simp add: nibble_bytes_def backlight_bit_def hd44780_def LOW_def)
  moreover have "outputs (trace wd) = gpio_writes hd44780 0 [0x26, 0x22, 0x0E, 0x0A]"
    using write_SomeD[OF r(2)] p
    by (simp add: nibble_bytes_def backlight_bit_def hd44780_def HIGH_def)
  ultimately show ?thesis using r fair_flaky by blast
qed

subsection \<open>C4: the row index of setCursor\<close>

text \<open>
  C4, as amended. \<^verbatim>\<open>setCursor(col, row)\<close> replaces \<open>row\<close> by \<^verbatim>\<open>_numlines - 1\<close>, in 8
  bits, when \<open>row\<close> is greater than \<^verbatim>\<open>_numlines\<close>, and by nothing else; the index is not
  clamped to the four entries of \<^verbatim>\<open>row_offsets\<close>. So the read is out of bounds exactly
  when that index is 4 or more. With \<^verbatim>\<open>_numlines\<close> equal to 0 every \<open>row\<close> from 1 on
  wraps to the index 255; a \<open>row\<close> equal to \<^verbatim>\<open>_numlines\<close> is not replaced at all, so it
  is read in bounds when it is below 4 (row 0 with \<^verbatim>\<open>_numlines\<close> 0 reads entry 0) and
  out of bounds when it is 4 or more.
\<close>

theorem setCursor_row_index:
  "(setCursor h col row w = Some (Inl f) \<longleftrightarrow>
      f = RowOffsetsOutOfBounds (unat (if row > numlines w then numlines w - 1 else row)) \<and>
      4 \<le> unat (if row > numlines w then numlines w - 1 else row)) \<and>
   (numlines w = 0 \<and> row \<noteq> 0 \<longrightarrow>
      setCursor h col row w = Some (Inl (RowOffsetsOutOfBounds 255))) \<and>
   (row = numlines w \<and> row < 4 \<longrightarrow>
      setCursor h col row w = map_option Inr
        (command h (word_of_int (uint (LCD_SETDDRAMADDR h) OR
           (uint col + row_offsets ! unat row))) w)) \<and>
   (row = numlines w \<and> 4 \<le> row \<longrightarrow>
      setCursor h col row w = Some (Inl (RowOffsetsOutOfBounds (unat row))))"
proof (intro conjI impI)
  let ?r = "if row > numlines w then numlines w - 1 else row"
  show "setCursor h col row w = Some (Inl f) \<longleftrightarrow>
      f = RowOffsetsOutOfBounds (unat ?r) \<and> 4 \<le> unat ?r"
  proof (cases "unat ?r < 4")
    case True
    then show ?thesis using setCursor_in_table[OF True, where h = h and col = col]
      by (cases "command h (word_of_int (uint (LCD_SETDDRAMADDR h) OR
        (uint col + row_offsets ! unat ?r))) w") auto
  next
    case False
    then have "4 \<le> unat ?r" by simp
    from setCursor_out_of_table[OF this, where h = h and col = col] this show ?thesis by auto
  qed
next
  assume a: "numlines w = 0 \<and> row \<noteq> 0"
  then have "row > numlines w" by (simp add: word_neq_0_conv)
  with a have "unat (if row > numlines w then numlines w - 1 else row) = 255"
    by (simp add: unsigned_minus_1_eq_mask mask_eq_exp_minus_1)
  with setCursor_out_of_table[where row = row and w = w and h = h and col = col]
  show "setCursor h col row w = Some (Inl (RowOffsetsOutOfBounds 255))" by simp
next
  assume a: "row = numlines w \<and> row < 4"
  then have "unat row < 4" by (auto simp: word_less_nat_alt)
  with a setCursor_in_table[where row = row and w = w and h = h and col = col]
  show "setCursor h col row w = map_option Inr
        (command h (word_of_int (uint (LCD_SETDDRAMADDR h) OR
           (uint col + row_offsets ! unat row))) w)" by simp
next
  assume a: "row = numlines w \<and> 4 \<le> row"
  then have "4 \<le> unat row" by (auto simp: word_le_nat_alt)
  with a setCursor_out_of_table[where row = row and w = w and h = h and col = col]
  show "setCursor h col row w = Some (Inl (RowOffsetsOutOfBounds (unat row)))" by simp
qed

text \<open>
  On the object in zeroed storage (\<^verbatim>\<open>_numlines\<close> is 0): row 1 faults with index 255,
  row 0 is the command \<open>0x80\<close>, and with \<^verbatim>\<open>_numlines\<close> 4, row 4 faults with index 4.
\<close>

theorem setCursor_row_index_witness:
  "numlines lcd0 = 0 \<and> (1::u8) \<noteq> 0 \<and>
   setCursor hd44780 0 1 lcd0 = Some (Inl (RowOffsetsOutOfBounds 255)) \<and>
   setCursor hd44780 0 0 lcd0 = map_option Inr (command hd44780 0x80 lcd0) \<and>
   setCursor hd44780 0 4 (lcd0\<lparr>numlines := 4\<rparr>) = Some (Inl (RowOffsetsOutOfBounds 4))"
proof -
  have n: "numlines lcd0 = 0" by (simp add: lcd0_def LiquidTWI_def zeroed_def)
  from setCursor_row_index[of hd44780 0 1 lcd0] n
  have 1: "setCursor hd44780 0 1 lcd0 = Some (Inl (RowOffsetsOutOfBounds 255))" by simp
  from setCursor_row_index[of hd44780 0 0 lcd0] n
  have 2: "setCursor hd44780 0 0 lcd0 = map_option Inr (command hd44780 0x80 lcd0)"
    by (simp add: row_offsets_def hd44780_def)
  from setCursor_row_index[of hd44780 0 4 "lcd0\<lparr>numlines := 4\<rparr>"]
  have 3: "setCursor hd44780 0 4 (lcd0\<lparr>numlines := 4\<rparr>) = Some (Inl (RowOffsetsOutOfBounds 4))"
    by simp
  from n 1 2 3 show ?thesis by simp
qed

text \<open>
  The claim as it was written: with \<^verbatim>\<open>_numlines\<close> equal to 0, passing \<open>row\<close> equal to
  \<^verbatim>\<open>_numlines\<close> would wrap the index to 255 and read out of bounds. It does not: the
  test of line 200 is \<^verbatim>\<open>row > _numlines\<close>, row 0 is kept, and the call writes the
  command \<open>0x80\<close> (address 0) without any fault.
\<close>

theorem setCursor_row_eq_numlines_counterexample:
  "numlines lcd0 = 0 \<and>
   setCursor hd44780 0 0 lcd0 \<noteq> Some (Inl (RowOffsetsOutOfBounds 255)) \<and>
   map_option (map_sum id (outputs \<circ> trace)) (setCursor hd44780 0 0 lcd0) =
     Some (Inr (gpio_writes hd44780 0 [0x44, 0x40, 0x04, 0x00]))"
proof -
  have n: "numlines lcd0 = 0" "i2cAddr lcd0 = 0" "displaycontrol lcd0 = 0" "trace lcd0 = []"
    by (simp_all add: lcd0_def LiquidTWI_def zeroed_def)
  have s: "setCursor hd44780 0 0 lcd0 = map_option Inr (command hd44780 0x80 lcd0)"
    using setCursor_in_table[where row = 0 and w = lcd0 and h = hd44780 and col = 0] n
    by (simp add: row_offsets_def hd44780_def)
  from ok_command[OF fair_lcd0, of hd44780 "0x80"] obtain wc where
    c: "command hd44780 0x80 lcd0 = Some wc" unfolding ok_def by blast
  from command_SomeD[OF c] n
  have "outputs (trace wc) = gpio_writes hd44780 0 [0x44, 0x40, 0x04, 0x00]"
    by (simp add: nibble_bytes_def backlight_bit_def hd44780_def LOW_def)
  with s c n show ?thesis by simp
qed

subsection \<open>C7: the handshake of begin and the two function-set commands\<close>

text \<open>
  C7. A call of \<^verbatim>\<open>begin\<close> that returns has, in this order: waited 50 ms, started the
  bus and configured the expander (two transactions to \<^verbatim>\<open>IODIR\<close>, no write to the GPIO
  register); written the eight bytes \<open>0x9C 0x98 0x9C 0x98 0x9C 0x98 0x94 0x90\<close> to the GPIO
  register; waited 5 ms; sent the function-set command, waited 5 ms, sent it again and
  waited 5 ms; and then sent the display control, the clear with its wait, the entry mode
  and the backlight byte. The eight bytes are four enable-high/enable-low pairs with RS
  low and the backlight on, carrying the nibbles 3, 3, 3 and 2. On a fair transport
  \<^verbatim>\<open>begin\<close> returns.
\<close>

theorem begin_handshake_then_function_set:
  "(fair (acks w) \<longrightarrow> (\<exists>w'. begin_lcd h cols lines dotsize w = Some w')) \<and>
   (\<forall>w'. begin_lcd h cols lines dotsize w = Some w' \<longrightarrow>
     outputs (trace w') = outputs (trace w) @
       [Delay 50, WireBegin,
        BeginTransmission (MCP23008_ADDRESS h OR i2cAddr w), WireWrite (MCP23008_IODIR h),
        WireWrite 0xFF, WireWrite 0, WireWrite 0, WireWrite 0, WireWrite 0, WireWrite 0,
        WireWrite 0, WireWrite 0, WireWrite 0, WireWrite 0,
        BeginTransmission (MCP23008_ADDRESS h OR i2cAddr w), WireWrite (MCP23008_IODIR h),
        WireWrite 0] @
       gpio_writes h (i2cAddr w) [0x9C, 0x98, 0x9C, 0x98, 0x9C, 0x98, 0x94, 0x90] @ [Delay 5] @
       gpio_writes h (i2cAddr w) (nibble_bytes h (displaycontrol w)
          (LCD_FUNCTIONSET h OR begin_function h lines dotsize (displayfunction w)) LOW) @ [Delay 5] @
       gpio_writes h (i2cAddr w) (nibble_bytes h (displaycontrol w)
          (LCD_FUNCTIONSET h OR begin_function h lines dotsize (displayfunction w)) LOW) @ [Delay 5] @
       gpio_writes h (i2cAddr w) (nibble_bytes h (LCD_DISPLAYON h OR LCD_DISPLAYON h)
          (LCD_DISPLAYCONTROL h OR (LCD_DISPLAYON h OR LCD_DISPLAYON h)) LOW) @
       gpio_writes h (i2cAddr w) (nibble_bytes h (LCD_DISPLAYON h OR LCD_DISPLAYON h)
          (LCD_CLEARDISPLAY h) LOW) @ [DelayMicroseconds 2000] @
       gpio_writes h (i2cAddr w) (nibble_bytes h (LCD_DISPLAYON h OR LCD_DISPLAYON h)
          (LCD_ENTRYMODESET h OR (LCD_ENTRYLEFT h OR LCD_ENTRYSHIFTDECREMENT h)) LOW) @
       gpio_writes h (i2cAddr w)
          [backlight_bit h (bitWrite (LCD_DISPLAYON h OR LCD_DISPLAYON h) 3 HIGH)]) \<and>
   map pin_data [0x9C, 0x98, 0x9C, 0x98, 0x9C, 0x98, 0x94, 0x90] = [3, 3, 3, 3, 3, 3, 2, 2] \<and>
   map pin_EN [0x9C, 0x98, 0x9C, 0x98, 0x9C, 0x98, 0x94, 0x90] =
     [True, False, True, False, True, False, True, False] \<and>
   map pin_RS [0x9C, 0x98, 0x9C, 0x98, 0x9C, 0x98, 0x94, 0x90] = [False, False, False, False, False, False, False, False] \<and>
   map pin_LITE [0x9C, 0x98, 0x9C, 0x98, 0x9C, 0x98, 0x94, 0x90] = [True, True, True, True, True, True, True, True]"
proof (intro conjI allI impI)
  assume "fair (acks w)"
  from ok_begin[OF this, of h cols lines dotsize]
  show "\<exists>w'. begin_lcd h cols lines dotsize w = Some w'" unfolding ok_def by blast
next
  fix w' assume "begin_lcd h cols lines dotsize w = Some w'"
  from begin_SomeD[OF this] show "outputs (trace w') = outputs (trace w) @
       [Delay 50, WireBegin,
        BeginTransmission (MCP23008_ADDRESS h OR i2cAddr w), WireWrite (MCP23008_IODIR h),
        WireWrite 0xFF, WireWrite 0, WireWrite 0, WireWrite 0, WireWrite 0, WireWrite 0,
        WireWrite 0, WireWrite 0, WireWrite 0, WireWrite 0,
        BeginTransmission (MCP23008_ADDRESS h OR i2cAddr w), WireWrite (MCP23008_IODIR h),
        WireWrite 0] @
       gpio_writes h (i2cAddr w) [0x9C, 0x98, 0x9C, 0x98, 0x9C, 0x98, 0x94, 0x90] @ [Delay 5] @
       gpio_writes h (i2cAddr w) (nibble_bytes h (displaycontrol w)
          (LCD_FUNCTIONSET h OR begin_function h lines dotsize (displayfunction w)) LOW) @ [Delay 5] @
       gpio_writes h (i2cAddr w) (nibble_bytes h (displaycontrol w)
          (LCD_FUNCTIONSET h OR begin_function h lines dotsize (displayfunction w)) LOW) @ [Delay 5] @
       gpio_writes h (i2cAddr w) (nibble_bytes h (LCD_DISPLAYON h OR LCD_DISPLAYON h)
          (LCD_DISPLAYCONTROL h OR (LCD_DISPLAYON h OR LCD_DISPLAYON h)) LOW) @
       gpio_writes h (i2cAddr w) (nibble_bytes h (LCD_DISPLAYON h OR LCD_DISPLAYON h)
          (LCD_CLEARDISPLAY h) LOW) @ [DelayMicroseconds 2000] @
       gpio_writes h (i2cAddr w) (nibble_bytes h (LCD_DISPLAYON h OR LCD_DISPLAYON h)
          (LCD_ENTRYMODESET h OR (LCD_ENTRYLEFT h OR LCD_ENTRYSHIFTDECREMENT h)) LOW) @
       gpio_writes h (i2cAddr w)
          [backlight_bit h (bitWrite (LCD_DISPLAYON h OR LCD_DISPLAYON h) 3 HIGH)]"
    by blast
qed (simp_all add: pin_data_def pin_EN_def pin_RS_def pin_LITE_def)

text \<open>\<^verbatim>\<open>begin(16,2)\<close> on the object in zeroed storage, with the usual macro values.\<close>

theorem begin_handshake_then_function_set_witness:
  "fair (acks lcd0) \<and>
   (\<exists>w'. begin_lcd hd44780 16 2 0 lcd0 = Some w' \<and>
     outputs (trace w') =
       [Delay 50, WireBegin,
        BeginTransmission 0x20, WireWrite 0, WireWrite 0xFF, WireWrite 0, WireWrite 0,
        WireWrite 0, WireWrite 0, WireWrite 0, WireWrite 0, WireWrite 0, WireWrite 0,
        WireWrite 0, BeginTransmission 0x20, WireWrite 0, WireWrite 0] @
       gpio_writes hd44780 0 [0x9C, 0x98, 0x9C, 0x98, 0x9C, 0x98, 0x94, 0x90] @ [Delay 5] @
       gpio_writes hd44780 0 [0x14, 0x10, 0x44, 0x40] @ [Delay 5] @
       gpio_writes hd44780 0 [0x14, 0x10, 0x44, 0x40] @ [Delay 5] @
       gpio_writes hd44780 0 [0x04, 0x00, 0x64, 0x60] @
       gpio_writes hd44780 0 [0x04, 0x00, 0x0C, 0x08] @ [DelayMicroseconds 2000] @
       gpio_writes hd44780 0 [0x04, 0x00, 0x34, 0x30] @
       gpio_writes hd44780 0 [0x80])"
proof -
  note t = begin_handshake_then_function_set[of lcd0 hd44780 16 2 0]
  from t fair_lcd0 obtain w' where w': "begin_lcd hd44780 16 2 0 lcd0 = Some w'" by blast
  have p: "trace lcd0 = []" "i2cAddr lcd0 = 0" "displaycontrol lcd0 = 0"
    "displayfunction lcd0 = 0"
    by (simp_all add: lcd0_def LiquidTWI_def zeroed_def hd44780_def)
  have n: "nibble_bytes hd44780 0 0x28 LOW = [0x14, 0x10, 0x44, 0x40]"
    "nibble_bytes hd44780 4 0x0C LOW = [0x04, 0x00, 0x64, 0x60]"
    "nibble_bytes hd44780 4 0x01 LOW = [0x04, 0x00, 0x0C, 0x08]"
    "nibble_bytes hd44780 4 0x06 LOW = [0x04, 0x00, 0x34, 0x30]"
    "backlight_bit hd44780 (bitWrite 4 3 HIGH) = 0x80"
    "begin_function hd44780 2 0 0 = 8"
    by (simp_all add: nibble_bytes_def backlight_bit_def hd44780_def LOW_def HIGH_def
        bitWrite_def begin_function_def)
  have m: "MCP23008_ADDRESS hd44780 = 0x20" "MCP23008_IODIR hd44780 = 0"
    "LCD_FUNCTIONSET hd44780 = 0x20" "LCD_DISPLAYON hd44780 = 4"
    "LCD_DISPLAYCONTROL hd44780 = 8" "LCD_CLEARDISPLAY hd44780 = 1"
    "LCD_ENTRYMODESET hd44780 = 4" "LCD_ENTRYLEFT hd44780 = 2"
    "LCD_ENTRYSHIFTDECREMENT hd44780 = 0"
    by (simp_all add: hd44780_def)
  from t w' have "outputs (trace w') = outputs (trace lcd0) @
       [Delay 50, WireBegin,
        BeginTransmission (MCP23008_ADDRESS hd44780 OR i2cAddr lcd0),
        WireWrite (MCP23008_IODIR hd44780),
        WireWrite 0xFF, WireWrite 0, WireWrite 0, WireWrite 0, WireWrite 0, WireWrite 0,
        WireWrite 0, WireWrite 0, WireWrite 0, WireWrite 0,
        BeginTransmission (MCP23008_ADDRESS hd44780 OR i2cAddr lcd0),
        WireWrite (MCP23008_IODIR hd44780),
        WireWrite 0] @
       gpio_writes hd44780 (i2cAddr lcd0) [0x9C, 0x98, 0x9C, 0x98, 0x9C, 0x98, 0x94, 0x90] @ [Delay 5] @
       gpio_writes hd44780 (i2cAddr lcd0) (nibble_bytes hd44780 (displaycontrol lcd0)
          (LCD_FUNCTIONSET hd44780 OR begin_function hd44780 2 0 (displayfunction lcd0)) LOW) @ [Delay 5] @
       gpio_writes hd44780 (i2cAddr lcd0) (nibble_bytes hd44780 (displaycontrol lcd0)
          (LCD_FUNCTIONSET hd44780 OR begin_function hd44780 2 0 (displayfunction lcd0)) LOW) @ [Delay 5] @
       gpio_writes hd44780 (i2cAddr lcd0) (nibble_bytes hd44780 (LCD_DISPLAYON hd44780 OR LCD_DISPLAYON hd44780)
          (LCD_DISPLAYCONTROL hd44780 OR (LCD_DISPLAYON hd44780 OR LCD_DISPLAYON hd44780)) LOW) @
       gpio_writes hd44780 (i2cAddr lcd0) (nibble_bytes hd44780 (LCD_DISPLAYON hd44780 OR LCD_DISPLAYON hd44780)
          (LCD_CLEARDISPLAY hd44780) LOW) @ [DelayMicroseconds 2000] @
       gpio_writes hd44780 (i2cAddr lcd0) (nibble_bytes hd44780 (LCD_DISPLAYON hd44780 OR LCD_DISPLAYON hd44780)
          (LCD_ENTRYMODESET hd44780 OR (LCD_ENTRYLEFT hd44780 OR LCD_ENTRYSHIFTDECREMENT hd44780)) LOW) @
       gpio_writes hd44780 (i2cAddr lcd0)
          [backlight_bit hd44780 (bitWrite (LCD_DISPLAYON hd44780 OR LCD_DISPLAYON hd44780) 3 HIGH)]"
    by blast
  then have "outputs (trace w') =
       [Delay 50, WireBegin,
        BeginTransmission 0x20, WireWrite 0, WireWrite 0xFF, WireWrite 0, WireWrite 0,
        WireWrite 0, WireWrite 0, WireWrite 0, WireWrite 0, WireWrite 0, WireWrite 0,
        WireWrite 0, BeginTransmission 0x20, WireWrite 0, WireWrite 0] @
       gpio_writes hd44780 0 [0x9C, 0x98, 0x9C, 0x98, 0x9C, 0x98, 0x94, 0x90] @ [Delay 5] @
       gpio_writes hd44780 0 [0x14, 0x10, 0x44, 0x40] @ [Delay 5] @
       gpio_writes hd44780 0 [0x14, 0x10, 0x44, 0x40] @ [Delay 5] @
       gpio_writes hd44780 0 [0x04, 0x00, 0x64, 0x60] @
       gpio_writes hd44780 0 [0x04, 0x00, 0x0C, 0x08] @ [DelayMicroseconds 2000] @
       gpio_writes hd44780 0 [0x04, 0x00, 0x34, 0x30] @
       gpio_writes hd44780 0 [0x80]"
    by (simp add: p m n)
  with w' fair_lcd0 show ?thesis by blast
qed

subsection \<open>C2: the address setCursor sends on a two-line display\<close>

text \<open>
  C2. After a \<^verbatim>\<open>begin\<close> with two lines (\<^verbatim>\<open>cols\<close> is never read, so 16 columns is one
  case), \<^verbatim>\<open>setCursor(col, 0)\<close> is the command \<^verbatim>\<open>LCD_SETDDRAMADDR | col\<close> and
  \<^verbatim>\<open>setCursor(col, 1)\<close> is the command \<^verbatim>\<open>LCD_SETDDRAMADDR | (0x40 + col)\<close>, for every
  byte \<open>col\<close>. With \<^verbatim>\<open>LCD_SETDDRAMADDR\<close> equal to \<open>0x80\<close> and \<open>col\<close> below \<open>0x40\<close>, which
  covers the 16 columns, the command byte has bit 7 set and its low seven bits, the
  address field of the instruction, are exactly \<open>col\<close> and \<open>0x40 + col\<close>.
\<close>

theorem setCursor_two_line_address:
  "begin_lcd h cols 2 dotsize w0 = Some w \<longrightarrow>
     setCursor h col 0 w = map_option Inr (command h (LCD_SETDDRAMADDR h OR col) w) \<and>
     setCursor h col 1 w = map_option Inr (command h (LCD_SETDDRAMADDR h OR (0x40 + col)) w) \<and>
     (LCD_SETDDRAMADDR h = 0x80 \<and> col < 0x40 \<longrightarrow>
        (LCD_SETDDRAMADDR h OR col) AND 0x7F = col \<and>
        bit (LCD_SETDDRAMADDR h OR col) 7 \<and>
        (LCD_SETDDRAMADDR h OR (0x40 + col)) AND 0x7F = 0x40 + col \<and>
        bit (LCD_SETDDRAMADDR h OR (0x40 + col)) 7)"
proof (intro impI conjI)
  assume "begin_lcd h cols 2 dotsize w0 = Some w"
  from begin_SomeD[OF this] have n: "numlines w = 2" by blast
  have 0: "unat (if (0::u8) > numlines w then numlines w - 1 else 0) < 4"
    and 1: "unat (if (1::u8) > numlines w then numlines w - 1 else 1) < 4"
    by (simp_all add: n)
  from setCursor_in_table[OF 0, where h = h and col = col] n
  show "setCursor h col 0 w = map_option Inr (command h (LCD_SETDDRAMADDR h OR col) w)"
    by (simp add: ddram_command row_offsets_def)
  from setCursor_in_table[OF 1, where h = h and col = col] n
  show "setCursor h col 1 w = map_option Inr (command h (LCD_SETDDRAMADDR h OR (0x40 + col)) w)"
    by (simp add: ddram_command row_offsets_def add.commute)
next
  assume a: "LCD_SETDDRAMADDR h = 0x80 \<and> col < 0x40"
  then have c: "col < 0x40" by blast
  from a ddram_decode[OF c]
  show "(LCD_SETDDRAMADDR h OR col) AND 0x7F = col"
    "bit (LCD_SETDDRAMADDR h OR col) 7"
    "(LCD_SETDDRAMADDR h OR (0x40 + col)) AND 0x7F = 0x40 + col"
    "bit (LCD_SETDDRAMADDR h OR (0x40 + col)) 7"
    by simp_all
qed

text \<open>\<^verbatim>\<open>begin(16,2)\<close>, then column 15: the commands \<open>0x8F\<close> and \<open>0xCF\<close>.\<close>

theorem setCursor_two_line_address_witness:
  "\<exists>w. begin_lcd hd44780 16 2 0 lcd0 = Some w \<and>
     setCursor hd44780 15 0 w = map_option Inr (command hd44780 0x8F w) \<and>
     setCursor hd44780 15 1 w = map_option Inr (command hd44780 0xCF w) \<and>
     LCD_SETDDRAMADDR hd44780 = 0x80 \<and> (15::u8) < 0x40 \<and>
     (0x8F::u8) AND 0x7F = 15 \<and> (0xCF::u8) AND 0x7F = 0x40 + 15"
proof -
  from ok_begin[OF fair_lcd0, of hd44780 16 2 0] obtain w where
    w: "begin_lcd hd44780 16 2 0 lcd0 = Some w" unfolding ok_def by blast
  have m: "LCD_SETDDRAMADDR hd44780 = 0x80" by (simp add: hd44780_def)
  from setCursor_two_line_address[of hd44780 16 0 lcd0 w 15] w m
  have "setCursor hd44780 15 0 w = map_option Inr (command hd44780 0x8F w) \<and>
     setCursor hd44780 15 1 w = map_option Inr (command hd44780 0xCF w)"
    by simp
  with w m show ?thesis by (intro exI[of _ w]) simp
qed

subsection \<open>C5: the bus address\<close>

text \<open>
  C5. The constructor stores 7 for every argument above 7 and the argument itself
  otherwise, so the stored address is at most 7; and no run of member functions that
  returns, from the constructed object, changes it. (A run that reads beyond an array is
  not a state of the program any more and is not covered.)
\<close>

theorem address_clamped_and_never_changed:
  "(addr > 7 \<longrightarrow> i2cAddr (LiquidTWI h addr storage) = 7) \<and>
   (addr \<le> 7 \<longrightarrow> i2cAddr (LiquidTWI h addr storage) = addr) \<and>
   i2cAddr (LiquidTWI h addr storage) \<le> 7 \<and>
   (\<forall>cs w'. run h cs (LiquidTWI h addr storage) = Some (Inr w') \<longrightarrow>
      i2cAddr w' = i2cAddr (LiquidTWI h addr storage) \<and> i2cAddr w' \<le> 7)"
proof -
  have a: "i2cAddr (LiquidTWI h addr storage) = (if addr > 7 then 7 else addr)"
    by (simp add: LiquidTWI_def Let_def)
  have b: "i2cAddr (LiquidTWI h addr storage) \<le> 7"
    unfolding a by (simp add: not_less)
  have "i2cAddr w' = i2cAddr (LiquidTWI h addr storage)"
    if "run h cs (LiquidTWI h addr storage) = Some (Inr w')" for cs w'
    using run_frame[OF that] by blast
  with a b show ?thesis by (auto simp: not_less)
qed

text \<open>
  Constructed with 200: the address is 7, and still 7 after \<^verbatim>\<open>begin(16,2)\<close>,
  \<^verbatim>\<open>display()\<close> and \<^verbatim>\<open>clear()\<close>. Constructed with 5: the address is 5.
\<close>

theorem address_clamped_and_never_changed_witness:
  "(200::u8) > 7 \<and> i2cAddr (LiquidTWI hd44780 200 zeroed) = 7 \<and>
   (5::u8) \<le> 7 \<and> i2cAddr (LiquidTWI hd44780 5 zeroed) = 5 \<and>
   (\<exists>w'. run hd44780 [Begin 16 2 0, Display, Clear] (LiquidTWI hd44780 200 zeroed) = Some (Inr w') \<and>
         i2cAddr w' = 7)"
proof -
  let ?w = "LiquidTWI hd44780 200 zeroed"
  note t = address_clamped_and_never_changed[of 200 hd44780 zeroed]
  note t5 = address_clamped_and_never_changed[of 5 hd44780 zeroed]
  have f: "fair (acks ?w)"
    unfolding fair_def by (auto simp: LiquidTWI_def zeroed_def Let_def)
  from ok_begin[OF f, of hd44780 16 2 0] obtain w1 where
    w1: "begin_lcd hd44780 16 2 0 ?w = Some w1" "fair (acks w1)" unfolding ok_def by blast
  from ok_display[OF w1(2), of hd44780] obtain w2 where
    w2: "display hd44780 w1 = Some w2" "fair (acks w2)" unfolding ok_def by blast
  from ok_clear[OF w2(2), of hd44780] obtain w3 where
    w3: "clear hd44780 w2 = Some w3" unfolding ok_def by blast
  have r: "run hd44780 [Begin 16 2 0, Display, Clear] ?w = Some (Inr w3)"
    by (simp add: w1 w2 w3)
  from t have 7: "i2cAddr ?w = 7" by simp
  from t r 7 have "i2cAddr w3 = 7" by metis
  moreover from t5 have "i2cAddr (LiquidTWI hd44780 5 zeroed) = 5" by simp
  ultimately show ?thesis using r 7 by simp
qed

subsection \<open>C10: begin never clears a function flag\<close>

text \<open>
  C10. \<^verbatim>\<open>begin\<close> leaves in \<^verbatim>\<open>_displayfunction\<close> the old value with \<^verbatim>\<open>LCD_2LINE\<close> ored in
  when \<open>lines > 1\<close> and \<^verbatim>\<open>LCD_5x10DOTS\<close> ored in when \<open>dotsize\<close> is not 0 and \<open>lines\<close> is 1:
  every bit that was set stays set. No other member function writes the field, so the
  same holds over any run of calls that returns, runs of \<^verbatim>\<open>begin\<close> calls among them. In
  particular \<^verbatim>\<open>begin(cols,2)\<close> followed by \<^verbatim>\<open>begin(cols',1,0)\<close> leaves the two-line flag
  set.
\<close>

theorem begin_never_clears_function_flags:
  "(\<forall>w'. begin_lcd h cols lines dotsize w = Some w' \<longrightarrow>
      displayfunction w' = begin_function h lines dotsize (displayfunction w) \<and>
      displayfunction w' AND displayfunction w = displayfunction w \<and>
      (lines > 1 \<longrightarrow> displayfunction w' AND LCD_2LINE h = LCD_2LINE h) \<and>
      (dotsize \<noteq> 0 \<and> lines = 1 \<longrightarrow> displayfunction w' AND LCD_5x10DOTS h = LCD_5x10DOTS h)) \<and>
   (\<forall>cs w'. run h cs w = Some (Inr w') \<longrightarrow>
      displayfunction w' AND displayfunction w = displayfunction w) \<and>
   (\<forall>cols' w1 w2. begin_lcd h cols 2 dotsize w = Some w1 \<and> begin_lcd h cols' 1 0 w1 = Some w2 \<longrightarrow>
      displayfunction w2 AND LCD_2LINE h = LCD_2LINE h)"
proof (intro conjI allI impI)
  fix w' assume b: "begin_lcd h cols lines dotsize w = Some w'"
  from begin_SomeD[OF b]
  show f: "displayfunction w' = begin_function h lines dotsize (displayfunction w)" by blast
  show "displayfunction w' AND displayfunction w = displayfunction w"
    unfolding f by (auto simp: begin_function_def Let_def bit_eq_iff bit_simps)
  show "displayfunction w' AND LCD_2LINE h = LCD_2LINE h" if "lines > 1"
    unfolding f using that by (auto simp: begin_function_def Let_def bit_eq_iff bit_simps)
  show "displayfunction w' AND LCD_5x10DOTS h = LCD_5x10DOTS h" if "dotsize \<noteq> 0 \<and> lines = 1"
    unfolding f using that by (auto simp: begin_function_def Let_def bit_eq_iff bit_simps)
next
  fix cs w' assume "run h cs w = Some (Inr w')"
  from run_frame[OF this]
  show "displayfunction w' AND displayfunction w = displayfunction w" by blast
next
  fix cols' w1 w2
  assume a: "begin_lcd h cols 2 dotsize w = Some w1 \<and> begin_lcd h cols' 1 0 w1 = Some w2"
  from a begin_SomeD[of h cols 2 dotsize w w1]
  have 1: "displayfunction w1 = begin_function h 2 dotsize (displayfunction w)" by blast
  from a begin_SomeD[of h cols' 1 0 w1 w2]
  have 2: "displayfunction w2 = begin_function h 1 0 (displayfunction w1)" by blast
  have 3: "begin_function h 2 dotsize (displayfunction w) = displayfunction w OR LCD_2LINE h"
    "\<And>x. begin_function h 1 0 x = x"
    by (simp_all add: begin_function_def)
  have "(displayfunction w OR LCD_2LINE h) AND LCD_2LINE h = LCD_2LINE h"
    by (auto simp: bit_eq_iff bit_simps)
  then show "displayfunction w2 AND LCD_2LINE h = LCD_2LINE h"
    unfolding 2 1 3 .
qed

text \<open>
  \<^verbatim>\<open>begin(16,2)\<close> and then \<^verbatim>\<open>begin(16,1,0)\<close> on the object in zeroed storage: the field is
  \<open>0x08\<close> after both, the two-line flag, although the second call asked for one line.
\<close>

theorem begin_never_clears_function_flags_witness:
  "\<exists>w1 w2. begin_lcd hd44780 16 2 0 lcd0 = Some w1 \<and> begin_lcd hd44780 16 1 0 w1 = Some w2 \<and>
     (2::u8) > 1 \<and> displayfunction w1 = 0x08 \<and> displayfunction w2 = 0x08 \<and>
     displayfunction w2 AND LCD_2LINE hd44780 = LCD_2LINE hd44780 \<and>
     run hd44780 [Begin 16 2 0, Begin 16 1 0] lcd0 = Some (Inr w2)"
proof -
  from ok_begin[OF fair_lcd0, of hd44780 16 2 0] obtain w1 where
    w1: "begin_lcd hd44780 16 2 0 lcd0 = Some w1" "fair (acks w1)" unfolding ok_def by blast
  from ok_begin[OF w1(2), of hd44780 16 1 0] obtain w2 where
    w2: "begin_lcd hd44780 16 1 0 w1 = Some w2" unfolding ok_def by blast
  note t = begin_never_clears_function_flags[of hd44780 16 2 0 lcd0]
  note t2 = begin_never_clears_function_flags[of hd44780 16 1 0 w1]
  have d0: "displayfunction lcd0 = 0"
    by (simp add: lcd0_def LiquidTWI_def zeroed_def hd44780_def)
  from t w1 d0 have d1: "displayfunction w1 = 0x08"
    by (simp add: begin_function_def hd44780_def)
  from t2 w2 d1 have d2: "displayfunction w2 = 0x08"
    by (simp add: begin_function_def hd44780_def)
  from t w1 w2 have "displayfunction w2 AND LCD_2LINE hd44780 = LCD_2LINE hd44780" by blast
  moreover have "run hd44780 [Begin 16 2 0, Begin 16 1 0] lcd0 = Some (Inr w2)"
    by (simp add: w1 w2)
  ultimately show ?thesis using w1 w2 d1 d2 by (intro exI[of _ w1] exI[of _ w2]) simp
qed

subsection \<open>C3: begin(16,2), setCursor(15,1), write('A')\<close>

text \<open>
  C3, as amended. After \<^verbatim>\<open>begin(16,2)\<close>, \<^verbatim>\<open>setCursor(15,1)\<close> is the command
  \<^verbatim>\<open>LCD_SETDDRAMADDR | 0x4F\<close>: the DDRAM address is \<open>0x40 + 15 = 0x4F\<close> and the command
  byte is \<open>0xCF\<close>, not \<open>0x54\<close>. The two calls \<^verbatim>\<open>setCursor(15,1)\<close> and \<^verbatim>\<open>write('A')\<close> add to
  the outputs the four bursts of that command with RS low and then the four bursts (two
  nibbles, each enable high then low) of the byte \<open>0x41\<close> with RS high, and nothing else.
  On a fair transport the three calls return.
\<close>

theorem scenario_cursor_then_write:
  "(fair (acks w0) \<longrightarrow>
      (\<exists>w3. run h [Begin 16 2 dotsize, SetCursor 15 1, Write 0x41] w0 = Some (Inr w3))) \<and>
   (\<forall>w1. begin_lcd h 16 2 dotsize w0 = Some w1 \<longrightarrow>
      setCursor h 15 1 w1 = map_option Inr (command h (LCD_SETDDRAMADDR h OR 0x4F) w1) \<and>
      (\<forall>w3. run h [SetCursor 15 1, Write 0x41] w1 = Some (Inr w3) \<longrightarrow>
         outputs (trace w3) = outputs (trace w1) @
           gpio_writes h (i2cAddr w0)
             (nibble_bytes h (displaycontrol w1) (LCD_SETDDRAMADDR h OR 0x4F) LOW) @
           gpio_writes h (i2cAddr w0) (nibble_bytes h (displaycontrol w1) 0x41 HIGH)))"
proof (intro conjI allI impI)
  assume f: "fair (acks w0)"
  from ok_begin[OF f, of h 16 2 dotsize] obtain w1 where
    w1: "begin_lcd h 16 2 dotsize w0 = Some w1" "fair (acks w1)" unfolding ok_def by blast
  from ok_command[OF w1(2), of h "LCD_SETDDRAMADDR h OR 0x4F"] obtain w2 where
    w2: "command h (LCD_SETDDRAMADDR h OR 0x4F) w1 = Some w2" "fair (acks w2)"
    unfolding ok_def by blast
  from ok_write[OF w2(2), of h "0x41"] obtain w3 where
    w3: "write_lcd h 0x41 w2 = Some w3" unfolding ok_def by blast
  from scenario_steps(1)[OF w1(1)] w2
  have "setCursor h 15 1 w1 = Some (Inr w2)" by simp
  with w1 w3 have "run h [Begin 16 2 dotsize, SetCursor 15 1, Write 0x41] w0 = Some (Inr w3)"
    by simp
  then show "\<exists>w3. run h [Begin 16 2 dotsize, SetCursor 15 1, Write 0x41] w0 = Some (Inr w3)"
    by blast
next
  fix w1 assume b: "begin_lcd h 16 2 dotsize w0 = Some w1"
  show "setCursor h 15 1 w1 = map_option Inr (command h (LCD_SETDDRAMADDR h OR 0x4F) w1)"
    by (rule scenario_steps(1)[OF b])
  fix w3 assume "run h [SetCursor 15 1, Write 0x41] w1 = Some (Inr w3)"
  from scenario_steps(2)[OF b this]
  show "outputs (trace w3) = outputs (trace w1) @
           gpio_writes h (i2cAddr w0)
             (nibble_bytes h (displaycontrol w1) (LCD_SETDDRAMADDR h OR 0x4F) LOW) @
           gpio_writes h (i2cAddr w0) (nibble_bytes h (displaycontrol w1) 0x41 HIGH)" .
qed

text \<open>
  With the usual macro values on the object in zeroed storage: the command is \<open>0xCF\<close>, and
  the eight bytes on the wire are \<open>E4 E0 FC F8\<close> (nibbles C and F, RS low) and
  \<open>A6 A2 8E 8A\<close> (nibbles 4 and 1, RS high), all with the backlight bit.
\<close>

theorem scenario_cursor_then_write_witness:
  "fair (acks lcd0) \<and>
   (\<exists>w1 w3. begin_lcd hd44780 16 2 0 lcd0 = Some w1 \<and>
      setCursor hd44780 15 1 w1 = map_option Inr (command hd44780 0xCF w1) \<and>
      run hd44780 [SetCursor 15 1, Write 0x41] w1 = Some (Inr w3) \<and>
      run hd44780 [Begin 16 2 0, SetCursor 15 1, Write 0x41] lcd0 = Some (Inr w3) \<and>
      outputs (trace w3) = outputs (trace w1) @
        gpio_writes hd44780 0 [0xE4, 0xE0, 0xFC, 0xF8] @
        gpio_writes hd44780 0 [0xA6, 0xA2, 0x8E, 0x8A])"
proof -
  note t = scenario_cursor_then_write[of lcd0 hd44780 0]
  from begin_lcd0 obtain w1 where w1: "begin_lcd hd44780 16 2 0 lcd0 = Some w1"
    "displaycontrol w1 = 0x0C" by blast
  from t fair_lcd0 obtain w3 where
    r: "run hd44780 [Begin 16 2 0, SetCursor 15 1, Write 0x41] lcd0 = Some (Inr w3)" by blast
  with w1 have r1: "run hd44780 [SetCursor 15 1, Write 0x41] w1 = Some (Inr w3)" by simp
  have m: "LCD_SETDDRAMADDR hd44780 OR 0x4F = 0xCF" by (simp add: hd44780_def)
  have i: "i2cAddr lcd0 = 0" by (simp add: lcd0_def LiquidTWI_def zeroed_def)
  have nb: "nibble_bytes hd44780 0x0C 0xCF LOW = [0xE4, 0xE0, 0xFC, 0xF8]"
    "nibble_bytes hd44780 0x0C 0x41 HIGH = [0xA6, 0xA2, 0x8E, 0x8A]"
    by (simp_all add: nibble_bytes_def backlight_bit_def hd44780_def LOW_def HIGH_def)
  from t w1(1) have s: "setCursor hd44780 15 1 w1 = map_option Inr (command hd44780 0xCF w1)"
    unfolding m by blast
  from t w1(1) r1 have "outputs (trace w3) = outputs (trace w1) @
        gpio_writes hd44780 (i2cAddr lcd0) (nibble_bytes hd44780 (displaycontrol w1)
          (LCD_SETDDRAMADDR hd44780 OR 0x4F) LOW) @
        gpio_writes hd44780 (i2cAddr lcd0) (nibble_bytes hd44780 (displaycontrol w1) 0x41 HIGH)"
    by blast
  then have "outputs (trace w3) = outputs (trace w1) @
        gpio_writes hd44780 0 [0xE4, 0xE0, 0xFC, 0xF8] @
        gpio_writes hd44780 0 [0xA6, 0xA2, 0x8E, 0x8A]"
    by (simp only: m i w1(2) nb)
  with w1 s r r1 fair_lcd0 show ?thesis by blast
qed

text \<open>
  The claim as it was written expects the address command \<open>0x54\<close>. The run of the three
  calls is the run with \<^verbatim>\<open>command(0xCF)\<close> in the place of \<^verbatim>\<open>setCursor(15,1)\<close>; what it
  writes after the 108 outputs of \<^verbatim>\<open>begin\<close> starts with the bytes \<open>E4 E0 FC F8\<close>. A command
  byte \<open>0x54\<close> would be the bytes \<open>AC A8 A4 A0\<close>, and the address \<open>0x54\<close> (command byte
  \<open>0xD4\<close>) would be \<open>EC E8 A4 A0\<close>.
\<close>

theorem scenario_address_0x54_counterexample:
  "run hd44780 [Begin 16 2 0, SetCursor 15 1, Write 0x41] lcd0 =
     run hd44780 [Begin 16 2 0, Command 0xCF, Write 0x41] lcd0 \<and>
   map_option (map_sum id (drop 108 \<circ> outputs \<circ> trace))
     (run hd44780 [Begin 16 2 0, SetCursor 15 1, Write 0x41] lcd0) =
     Some (Inr (gpio_writes hd44780 0 [0xE4, 0xE0, 0xFC, 0xF8, 0xA6, 0xA2, 0x8E, 0x8A])) \<and>
   nibble_bytes hd44780 0x0C 0x54 LOW = [0xAC, 0xA8, 0xA4, 0xA0] \<and>
   nibble_bytes hd44780 0x0C 0xD4 LOW = [0xEC, 0xE8, 0xA4, 0xA0] \<and>
   (0xCF :: u8) AND 0x7F = 0x4F"
proof -
  from scenario_lcd0 obtain w1 w2 w3 where
    s: "begin_lcd hd44780 16 2 0 lcd0 = Some w1" "length (outputs (trace w1)) = 108"
      "command hd44780 0xCF w1 = Some w2" "write_lcd hd44780 0x41 w2 = Some w3"
      "setCursor hd44780 15 1 w1 = Some (Inr w2)"
      "outputs (trace w3) = outputs (trace w1) @
         gpio_writes hd44780 0 [0xE4, 0xE0, 0xFC, 0xF8, 0xA6, 0xA2, 0x8E, 0x8A]"
    by blast
  have r: "run hd44780 [Begin 16 2 0, SetCursor 15 1, Write 0x41] lcd0 = Some (Inr w3)"
    "run hd44780 [Begin 16 2 0, Command 0xCF, Write 0x41] lcd0 = Some (Inr w3)"
    by (simp_all add: s)
  have nb: "nibble_bytes hd44780 0x0C 0x54 LOW = [0xAC, 0xA8, 0xA4, 0xA0]"
    "nibble_bytes hd44780 0x0C 0xD4 LOW = [0xEC, 0xE8, 0xA4, 0xA0]"
    by (simp_all add: nibble_bytes_def backlight_bit_def hd44780_def LOW_def)
  show ?thesis unfolding r by (simp add: s(2,6) nb)
qed

end
